theory Spec2Isabelle
  imports Complex_Main "HOL-Library.Sublist"
begin

chapter \<open>The model\<close>

section \<open>Python text operations used by the pipeline\<close>

text \<open>
  Python text is modelled as \<^typ>\<open>string\<close>, each \<^typ>\<open>char\<close> read as one code point
  below 256 (Latin-1). The operations below are \<^verbatim>\<open>str.isspace\<close>, \<^verbatim>\<open>str.lower\<close>,
  \<^verbatim>\<open>str.split()\<close> without argument, \<^verbatim>\<open>str.startswith\<close>, \<^verbatim>\<open>str.endswith\<close>, the
  substring test \<^verbatim>\<open>sub in s\<close> and \<^verbatim>\<open>str(n)\<close> for a natural number, on that range.
\<close>

definition is_space :: "char \<Rightarrow> bool" where
  "is_space c =
     (let n = (of_char c :: nat)
      in (9 \<le> n \<and> n \<le> 13) \<or> (28 \<le> n \<and> n \<le> 32) \<or> n = 133 \<or> n = 160)"

definition lower_char :: "char \<Rightarrow> char" where
  "lower_char c =
     (let n = (of_char c :: nat)
      in if (65 \<le> n \<and> n \<le> 90) \<or> (192 \<le> n \<and> n \<le> 222 \<and> n \<noteq> 215)
         then char_of (n + 32) else c)"

definition py_lower :: "string \<Rightarrow> string" where
  "py_lower s = map lower_char s"

fun starts_with :: "string \<Rightarrow> string \<Rightarrow> bool" where
  "starts_with s [] = True"
| "starts_with [] (p # ps) = False"
| "starts_with (c # cs) (p # ps) = (c = p \<and> starts_with cs ps)"

definition ends_with :: "string \<Rightarrow> string \<Rightarrow> bool" where
  "ends_with s p = starts_with (rev s) (rev p)"

fun py_in :: "string \<Rightarrow> string \<Rightarrow> bool" where
  "py_in sub [] = (sub = [])"
| "py_in sub (c # cs) = (starts_with (c # cs) sub \<or> py_in sub cs)"

fun split_ws :: "string \<Rightarrow> string \<Rightarrow> string list" where
  "split_ws cur [] = (if cur = [] then [] else [cur])"
| "split_ws cur (c # cs) =
     (if is_space c then (if cur = [] then split_ws [] cs else cur # split_ws [] cs)
      else split_ws (cur @ [c]) cs)"

definition py_split :: "string \<Rightarrow> string list" where
  "py_split s = split_ws [] s"

fun str_nat :: "nat \<Rightarrow> string" where
  "str_nat n =
     (if n < 10 then [''0123456789'' ! n]
      else str_nat (n div 10) @ [''0123456789'' ! (n mod 10)])"

text \<open>Python truthiness of an optional text: \<^verbatim>\<open>None\<close> and \<^verbatim>\<open>''\<close> are false.\<close>

fun truthy :: "string option \<Rightarrow> bool" where
  "truthy None = False"
| "truthy (Some s) = (s \<noteq> [])"


section \<open>Objective records\<close>

text \<open>
  An objective dictionary, with the keys the inference engine, the discovery engine and
  the validation engine read and write. A key that may hold \<^verbatim>\<open>None\<close> or be absent
  is an option. A confidence score is a rational: the literals \<^verbatim>\<open>0.75\<close>,
  \<^verbatim>\<open>0.7\<close>, \<^verbatim>\<open>0.4\<close> of the source are the fractions they denote, which the
  validation and the inference engine only compare with each other; where the source
  computes with a confidence, in \<^verbatim>\<open>enhance_confidence\<close>, the model rounds as binary
  floating point does.
\<close>

record objective =
  objective_index :: nat
  objective_text :: string
  evidence_excerpt :: "string option"
  evidence_url :: "string option"
  is_inferred :: bool
  confidence :: rat
  rationale :: "string option"
  validation_status :: string


section \<open>Validation engine (validation.py)\<close>

definition action_verbs :: "string list" where
  "action_verbs =
     [''understand'', ''demonstrate'', ''apply'', ''analyze'', ''evaluate'',
      ''identify'', ''explain'', ''describe'', ''compare'', ''create'',
      ''develop'', ''design'', ''implement'', ''use'', ''integrate'',
      ''teach'', ''assess'', ''plan'', ''collaborate'', ''communicate'']"

definition boilerplate_phrases :: "string list" where
  "boilerplate_phrases =
     [''click here'', ''read more'', ''download'', ''next page'',
      ''table of contents'', ''copyright'', ''all rights reserved'']"

text \<open>
  The text that \<^verbatim>\<open>f"Invalid confidence score: {confidence}"\<close> prints depends on the
  float formatting of Python; it is a parameter of the model.
\<close>

definition validate_objective :: "(rat \<Rightarrow> string) \<Rightarrow> objective \<Rightarrow> bool \<times> string list" where
  "validate_objective show_conf objective_data =
     (let obj_text = objective_text objective_data;
          word_count = length (py_split obj_text);
          issues1 = (if word_count < 6
                     then [''Objective too short ('' @ str_nat word_count @ '' words, minimum 6)'']
                     else []);
          has_action = list_ex (\<lambda>verb. py_in verb (py_lower obj_text)) action_verbs;
          issues2 = (if \<not> has_action then issues1 @ [''No clear action verb found'']
                     else issues1);
          issues3 = (if list_ex (\<lambda>phrase. py_in phrase (py_lower obj_text)) boilerplate_phrases
                     then issues2 @ [''Contains boilerplate/navigation text'']
                     else issues2);
          issues4 =
            (if is_inferred objective_data then
               (let c = confidence objective_data;
                    issues_c = (if \<not> (0 \<le> c \<and> c \<le> 1)
                                then issues3 @ [''Invalid confidence score: '' @ show_conf c]
                                else issues3)
                in if \<not> truthy (rationale objective_data)
                   then issues_c @ [''Inferred objective missing rationale'']
                   else issues_c)
             else issues3)
      in (length issues4 = 0, issues4))"



section \<open>Inference engine (inference.py)\<close>

text \<open>
  The metadata dictionary \<^verbatim>\<open>test_info\<close>. Each key is text when it is present
  (\<^verbatim>\<open>test_name\<close> and \<^verbatim>\<open>test_system\<close> are \<^verbatim>\<open>NOT NULL\<close> columns of the tests
  table). \<^const>\<open>None\<close> stands for a key that is absent or, for the nullable
  \<^verbatim>\<open>subject_area\<close> and \<^verbatim>\<open>official_source_url\<close>, one that holds \<^verbatim>\<open>None\<close>: the
  function only tests the truth of a subject area, and both are false.
\<close>

record test_info =
  test_name :: "string option"
  test_system :: "string option"
  subject_area :: "string option"
  official_source_url :: "string option"

text \<open>\<^verbatim>\<open>d.get(key, '')\<close> on such a key.\<close>

fun get_text :: "string option \<Rightarrow> string" where
  "get_text None = []"
| "get_text (Some s) = s"

definition intasc_standards :: "string list" where
  "intasc_standards =
     [''Learner Development: Understands how learners grow and develop'',
      ''Learning Differences: Uses understanding of individual differences and diverse cultures'',
      ''Learning Environments: Works with others to create environments that support learning'',
      ''Content Knowledge: Understands the central concepts and tools of inquiry'',
      ''Application of Content: Connects concepts using differing perspectives'',
      ''Assessment: Understands and uses multiple methods of assessment'',
      ''Planning for Instruction: Plans instruction that supports every student'',
      ''Instructional Strategies: Understands and uses a variety of instructional strategies'',
      ''Professional Learning: Engages in ongoing professional learning'',
      ''Leadership and Collaboration: Seeks leadership roles and collaborates'']"

definition subject_templates :: "string \<rightharpoonup> string list" where
  "subject_templates = map_of
     [(''Elementary Education'',
       [''Demonstrate knowledge of child development and learning theory'',
        ''Apply effective instructional strategies for diverse learners'',
        ''Integrate literacy instruction across content areas'',
        ''Use formative and summative assessment to guide instruction'',
        ''Create inclusive and culturally responsive classroom environments'',
        ''Understand and teach mathematics concepts and problem-solving'',
        ''Implement science inquiry and investigation methods'',
        ''Teach social studies content and citizenship concepts'',
        ''Develop students' critical thinking and communication skills'']),
      (''Mathematics'',
       [''Demonstrate deep understanding of mathematical concepts and procedures'',
        ''Apply mathematical reasoning and problem-solving strategies'',
        ''Connect mathematics to real-world applications and other disciplines'',
        ''Use technology to enhance mathematical learning'',
        ''Assess student understanding of mathematical concepts'',
        ''Differentiate instruction for diverse mathematical learners'',
        ''Teach number sense, operations, and algebraic thinking'',
        ''Develop geometric and spatial reasoning in students'',
        ''Apply statistical and probabilistic reasoning'']),
      (''English Language Arts'',
       [''Demonstrate knowledge of reading processes and comprehension strategies'',
        ''Teach writing processes and composition across genres'',
        ''Develop students' speaking and listening skills'',
        ''Analyze and teach literary and informational texts'',
        ''Apply linguistics and language development principles'',
        ''Integrate technology and media literacy instruction'',
        ''Assess and support literacy development'',
        ''Differentiate instruction for diverse language learners'']),
      (''Science'',
       [''Apply scientific inquiry and investigation methods'',
        ''Demonstrate content knowledge in physical sciences'',
        ''Demonstrate content knowledge in life sciences'',
        ''Demonstrate content knowledge in earth and space sciences'',
        ''Use technology and laboratory equipment safely and effectively'',
        ''Connect science concepts across disciplines'',
        ''Develop students' scientific reasoning and critical thinking'',
        ''Assess student understanding of scientific concepts'']),
      (''Social Studies'',
       [''Teach historical thinking and chronological reasoning'',
        ''Develop students' geographic literacy and spatial thinking'',
        ''Apply civic knowledge and promote civic engagement'',
        ''Teach economic concepts and financial literacy'',
        ''Integrate primary and secondary source analysis'',
        ''Promote cultural awareness and global perspectives'',
        ''Use inquiry-based approaches to social studies instruction'']),
      (''Special Education'',
       [''Understand characteristics of students with disabilities'',
        ''Apply individualized education program (IEP) development and implementation'',
        ''Use evidence-based instructional strategies for diverse learners'',
        ''Implement positive behavior supports and interventions'',
        ''Collaborate with families, educators, and service providers'',
        ''Apply assessment for eligibility, progress monitoring, and instruction'',
        ''Ensure access to general education curriculum'',
        ''Understand legal and ethical responsibilities in special education''])]"

definition get_generic_test_objectives :: "string \<Rightarrow> string \<Rightarrow> string list" where
  "get_generic_test_objectives system name =
     (let generic_objectives =
            [''Demonstrate content knowledge in '' @ name,
             ''Apply pedagogical principles and instructional strategies'',
             ''Assess and evaluate student learning and progress'',
             ''Create inclusive and equitable learning environments'',
             ''Integrate technology and resources to enhance learning'',
             ''Collaborate with colleagues, families, and communities'',
             ''Engage in professional growth and ethical practice'']
      in if py_in ''praxis'' (py_lower system)
         then generic_objectives @
              [''Apply Educational Testing Service (ETS) standards for teacher readiness'']
         else if py_in ''nes'' (py_lower system)
         then generic_objectives @ [''Meet state-specific educator preparation standards'']
         else generic_objectives)"

text \<open>The dictionary that every strategy appends for the item at position \<open>idx\<close>.\<close>

definition inferred_objective ::
    "string option \<Rightarrow> rat \<Rightarrow> string \<Rightarrow> nat \<times> string \<Rightarrow> objective" where
  "inferred_objective url conf rat = (\<lambda>(idx, obj_text).
     \<lparr> objective_index = idx,
       objective_text = obj_text,
       evidence_excerpt = None,
       evidence_url = url,
       is_inferred = True,
       confidence = conf,
       rationale = Some rat,
       validation_status = ''inferred'' \<rparr>)"

text \<open>
  The list \<^verbatim>\<open>inferred\<close> that \<^verbatim>\<open>infer_objectives\<close> has built when it reaches the
  threshold filter: the four strategies, the first that applies.
\<close>

definition inferred_candidates :: "test_info \<Rightarrow> objective list" where
  "inferred_candidates ti =
     (let name = get_text (test_name ti);
          subject = get_text (subject_area ti);
          system = get_text (test_system ti)
      in case (if subject \<noteq> [] then subject_templates subject else None) of
           Some objectives \<Rightarrow>
             map (inferred_objective None (3 / 4)
                    (''Inferred from standard '' @ subject @
                     '' teacher certification competency frameworks''))
                 (List.enumerate 0 objectives)
         | None \<Rightarrow>
             if py_in ''elementary'' (py_lower name) \<or> py_in ''general'' (py_lower name) then
               map (inferred_objective (Some ''https://ccsso.org/intasc'') (7 / 10)
                      ''Inferred from InTASC Model Core Teaching Standards, applicable to general teaching licenses'')
                   (List.enumerate 0 intasc_standards)
             else if system \<noteq> [] then
               map (inferred_objective None (6 / 10)
                      (''Inferred from typical '' @ system @
                       '' test structure and common teacher competencies''))
                   (List.enumerate 0 (get_generic_test_objectives system name))
             else
               map (inferred_objective (Some ''https://ccsso.org/intasc'') (4 / 10)
                      ''Minimal inference based on general teaching standards; official objectives not found'')
                   (List.enumerate 0 (take 5 intasc_standards)))"

definition infer_objectives :: "test_info \<Rightarrow> rat \<Rightarrow> objective list" where
  "infer_objectives ti confidence_threshold =
     filter (\<lambda>obj. confidence obj \<ge> confidence_threshold) (inferred_candidates ti)"

text \<open>The call with the default \<^verbatim>\<open>confidence_threshold=0.5\<close>.\<close>

definition infer_objectives_default :: "test_info \<Rightarrow> objective list" where
  "infer_objectives_default ti = infer_objectives ti (5 / 10)"

text \<open>Exceptions, with the text that \<^verbatim>\<open>str(e)\<close> gives.\<close>

datatype exn =
    KeyError string
  | TypeError string
  | IntegrityError string
  | Timeout string
  | ConnectionError string
  | TooManyRedirects string
  | ZeroDivisionError string
  | OtherException string

fun exn_str :: "exn \<Rightarrow> string" where
  "exn_str (KeyError k) = [CHR 0x27] @ k @ [CHR 0x27]"
| "exn_str (TypeError m) = m"
| "exn_str (IntegrityError m) = m"
| "exn_str (Timeout m) = m"
| "exn_str (ConnectionError m) = m"
| "exn_str (TooManyRedirects m) = m"
| "exn_str (ZeroDivisionError m) = m"
| "exn_str (OtherException m) = m"

text \<open>
  Binary floating point. A Python \<^verbatim>\<open>float\<close> is an IEEE 754 double, and \<^verbatim>\<open>+\<close> and
  \<^verbatim>\<open>*\<close> return the exact result rounded to the nearest double, ties to even. A double
  is modelled by the rational it equals; \<open>round_double\<close> rounds a rational to the nearest
  double (53 significant bits, smallest exponent \<open>-1074\<close>), which is also the value of a
  decimal literal and of an integer converted to \<^verbatim>\<open>float\<close>. Overflow to infinity is not
  modelled.
\<close>

function bit_length :: "int \<Rightarrow> nat" where
  "bit_length n = (if n \<le> 0 then 0 else Suc (bit_length (n div 2)))"
  by pat_completeness auto
termination
  by (relation "measure nat") auto

declare bit_length.simps [simp del]

definition pow2 :: "int \<Rightarrow> rat" where
  "pow2 e = (if 0 \<le> e then 2 ^ nat e else 1 / 2 ^ nat (- e))"

text \<open>For \<open>a > 0\<close>, the exponent \<open>e\<close> with \<open>2 ^ e \<le> a < 2 ^ (e + 1)\<close>.\<close>

definition binary_exponent :: "rat \<Rightarrow> int" where
  "binary_exponent a =
     (if 1 \<le> a then int (bit_length \<lfloor>a\<rfloor>) - 1
      else - int (bit_length (\<lceil>1 / a\<rceil> - 1)))"

definition round_half_even :: "rat \<Rightarrow> int" where
  "round_half_even x =
     (let f = \<lfloor>x\<rfloor>; r = x - of_int f
      in if r < 1 / 2 then f else if 1 / 2 < r then f + 1
         else if even f then f else f + 1)"

definition round_double :: "rat \<Rightarrow> rat" where
  "round_double x =
     (if x = 0 then 0
      else (let e = max (binary_exponent \<bar>x\<bar> - 52) (- 1074)
            in sgn x * of_int (round_half_even (\<bar>x\<bar> / pow2 e)) * pow2 e))"

text \<open>
  \<^verbatim>\<open>a + b\<close> and \<^verbatim>\<open>a * b\<close> on floats. The operands are read as doubles: rounding leaves
  a double as it is and turns a fraction that stands for a literal, such as the
  confidence \<open>7 / 10\<close> that the inference engine emits, into the double of that literal.
\<close>

definition py_float_add :: "rat \<Rightarrow> rat \<Rightarrow> rat" where
  "py_float_add a b = round_double (round_double a + round_double b)"

definition py_float_mul :: "rat \<Rightarrow> rat \<Rightarrow> rat" where
  "py_float_mul a b = round_double (round_double a * round_double b)"

text \<open>
  \<^verbatim>\<open>enhance_confidence\<close> updates the dictionaries in place, in list order, and returns
  the list. The boost is \<^verbatim>\<open>min(len(supporting_evidence) * 0.1, 0.3)\<close> and the new
  confidence \<^verbatim>\<open>min(obj['confidence'] + boost, 1.0)\<close>, both in floating point.
  \<^verbatim>\<open>obj['rationale'] += ...\<close> raises \<^verbatim>\<open>TypeError\<close> on an objective whose
  rationale is \<^verbatim>\<open>None\<close>.
\<close>

definition enhance_one :: "string list \<Rightarrow> objective \<Rightarrow> exn + objective" where
  "enhance_one supporting_evidence obj =
     (if is_inferred obj \<and> supporting_evidence \<noteq> [] then
        (let boost = min (py_float_mul (of_nat (length supporting_evidence)) (1 / 10))
                         (round_double (3 / 10));
             obj1 = obj\<lparr>confidence := min (py_float_add (confidence obj) boost) 1\<rparr>
         in case rationale obj1 of
              None \<Rightarrow> Inl (TypeError
                (''unsupported operand type(s) for +=: '' @ [CHR 0x27] @ ''NoneType'' @
                 [CHR 0x27] @ '' and '' @ [CHR 0x27] @ ''str'' @ [CHR 0x27]))
            | Some r \<Rightarrow> Inr (obj1\<lparr>rationale := Some (r @ '' | Supported by '' @
                str_nat (length supporting_evidence) @ '' additional source(s)'')\<rparr>))
      else Inr obj)"

fun enhance_confidence :: "objective list \<Rightarrow> string list \<Rightarrow> exn + objective list" where
  "enhance_confidence [] supporting_evidence = Inr []"
| "enhance_confidence (obj # objectives) supporting_evidence =
     (case enhance_one supporting_evidence obj of
        Inl e \<Rightarrow> Inl e
      | Inr obj' \<Rightarrow>
          (case enhance_confidence objectives supporting_evidence of
             Inl e \<Rightarrow> Inl e
           | Inr rest \<Rightarrow> Inr (obj' # rest)))"

text \<open>Sample records on which the properties below are evaluated.\<close>

definition sample_objective :: objective where
  "sample_objective =
     \<lparr> objective_index = 0,
       objective_text = ''Apply mathematical reasoning and problem-solving strategies'',
       evidence_excerpt = None,
       evidence_url = None,
       is_inferred = True,
       confidence = 3 / 4,
       rationale = Some ''r'',
       validation_status = ''inferred'' \<rparr>"

definition empty_test_info :: test_info where
  "empty_test_info =
     \<lparr> test_name = None, test_system = None, subject_area = None,
       official_source_url = None \<rparr>"

definition mathematics_test_info :: test_info where
  "mathematics_test_info =
     \<lparr> test_name = Some ''Mathematics: Content Knowledge'',
       test_system = Some ''Praxis'',
       subject_area = Some ''Mathematics'',
       official_source_url = Some ''https://www.ets.org/praxis/prepare/materials/5161'' \<rparr>"

section \<open>Discovery engine (discovery.py)\<close>

text \<open>
  A test dictionary maps keys to text or \<^verbatim>\<open>None\<close>; a key can be absent (the
  candidates that \<^verbatim>\<open>_extract_tests_from_url\<close> emits have no \<^verbatim>\<open>test_name\<close>).
\<close>

datatype pyval = PNone | PStr string

type_synonym pydict = "string \<rightharpoonup> pyval"

text \<open>\<^verbatim>\<open>d.get(key, default)\<close>.\<close>

definition dict_get :: "pydict \<Rightarrow> string \<Rightarrow> pyval \<Rightarrow> pyval" where
  "dict_get d k dflt = (case d k of None \<Rightarrow> dflt | Some v \<Rightarrow> v)"

definition test_key :: "pydict \<Rightarrow> pyval \<times> pyval \<times> pyval" where
  "test_key test =
     (dict_get test ''test_system'' (PStr []),
      dict_get test ''test_name'' (PStr []),
      dict_get test ''test_code'' (PStr []))"

text \<open>The loop of \<^verbatim>\<open>_deduplicate_tests\<close>, with its two variables \<^verbatim>\<open>seen\<close> and \<^verbatim>\<open>unique\<close>.\<close>

fun dedup_loop ::
    "pydict list \<Rightarrow> (pyval \<times> pyval \<times> pyval) set \<Rightarrow> pydict list \<Rightarrow> pydict list" where
  "dedup_loop [] seen unique = unique"
| "dedup_loop (test # tests) seen unique =
     (let key = test_key test
      in if key \<notin> seen then dedup_loop tests (insert key seen) (unique @ [test])
         else dedup_loop tests seen unique)"

definition deduplicate_tests :: "pydict list \<Rightarrow> pydict list" where
  "deduplicate_tests tests = dedup_loop tests {} []"

text \<open>
  What the loop appends to \<^verbatim>\<open>unique\<close> from a given \<^verbatim>\<open>seen\<close> on; used to reason
  about the loop.
\<close>

fun first_seen :: "(pyval \<times> pyval \<times> pyval) set \<Rightarrow> pydict list \<Rightarrow> pydict list" where
  "first_seen seen [] = []"
| "first_seen seen (test # tests) =
     (if test_key test \<in> seen then first_seen seen tests
      else test # first_seen (insert (test_key test) seen) tests)"

text \<open>Two candidates for Praxis 5001 that differ in their source URL only.\<close>

definition praxis_5001_a :: pydict where
  "praxis_5001_a =
     [''test_system'' \<mapsto> PStr ''Praxis'',
      ''test_name'' \<mapsto> PStr ''Elementary Education'',
      ''test_code'' \<mapsto> PStr ''5001'',
      ''official_source_url'' \<mapsto> PStr ''https://www.ets.org/praxis/a'']"

definition praxis_5001_b :: pydict where
  "praxis_5001_b =
     [''test_system'' \<mapsto> PStr ''Praxis'',
      ''test_name'' \<mapsto> PStr ''Elementary Education'',
      ''test_code'' \<mapsto> PStr ''5001'',
      ''official_source_url'' \<mapsto> PStr ''https://www.doe.state.gov/b'']"

section \<open>PDF validator (validator.py)\<close>

text \<open>
  What \<^verbatim>\<open>is_valid_pdf\<close> reads of an HTTP response: the status code, the
  \<^verbatim>\<open>Content-Type\<close> header (absent: \<^const>\<open>None\<close>), the final URL after redirects, and
  the first chunk of the body, \<^verbatim>\<open>next(response.iter_content(chunk_size=8), None)\<close>,
  which can raise while it reads from the network.
\<close>

record response =
  status_code :: nat
  content_type :: "string option"
  resp_url :: string
  first_chunk :: "exn + string option"

text \<open>
  The outside world of one call: \<^verbatim>\<open>urlparse\<close> (scheme and netloc of its result), the
  \<^verbatim>\<open>HEAD\<close> request, the streamed \<^verbatim>\<open>GET\<close> that replaces a \<^verbatim>\<open>HEAD\<close> without
  status 200, and the streamed \<^verbatim>\<open>GET\<close> made before the signature check. Each can
  raise.
\<close>

record web =
  urlparse :: "string \<Rightarrow> exn + string \<times> string"
  head :: "string \<Rightarrow> exn + response"
  get_redirects :: "string \<Rightarrow> exn + response"
  get_stream :: "string \<Rightarrow> exn + response"

text \<open>The four \<^verbatim>\<open>except\<close> clauses, in their order.\<close>

fun rejection :: "exn \<Rightarrow> bool \<times> string" where
  "rejection (Timeout m) = (False, ''Request timeout'')"
| "rejection (ConnectionError m) = (False, ''Connection failed'')"
| "rejection (TooManyRedirects m) = (False, ''Too many redirects'')"
| "rejection e = (False, ''Error: '' @ take 50 (exn_str e))"

text \<open>The last test of the function, on the final URL of the response at hand.\<close>

definition url_extension_check :: "response \<Rightarrow> bool \<times> string" where
  "url_extension_check r =
     (if py_in ''.pdf'' (py_lower (resp_url r)) then (True, ''Valid PDF (URL extension)'')
      else (False, ''Not a PDF file''))"

text \<open>
  \<^verbatim>\<open>hasattr(response, 'raw')\<close> holds for every response of the \<^verbatim>\<open>requests\<close>
  library, so the second \<^verbatim>\<open>GET\<close> is always made before the chunk is read.
\<close>

definition is_valid_pdf :: "web \<Rightarrow> string \<Rightarrow> bool \<times> string" where
  "is_valid_pdf w url =
     (case urlparse w url of
        Inl e \<Rightarrow> rejection e
      | Inr (scheme, netloc) \<Rightarrow>
          if scheme = [] \<or> netloc = [] then (False, ''Invalid URL format'')
          else
            (case head w url of
               Inl e \<Rightarrow> rejection e
             | Inr r0 \<Rightarrow>
                 (case (if status_code r0 \<noteq> 200 then get_redirects w url else Inr r0) of
                    Inl e \<Rightarrow> rejection e
                  | Inr r \<Rightarrow>
                      if status_code r \<noteq> 200 then (False, ''HTTP '' @ str_nat (status_code r))
                      else if py_in ''application/pdf'' (py_lower (get_text (content_type r)))
                      then (True, ''Valid PDF (Content-Type)'')
                      else if ends_with (py_lower url) ''.pdf'' \<or>
                              ends_with (py_lower (resp_url r)) ''.pdf''
                      then
                        (case get_stream w url of
                           Inl e \<Rightarrow> rejection e
                         | Inr r2 \<Rightarrow>
                             (case first_chunk r2 of
                                Inl e \<Rightarrow> rejection e
                              | Inr chunk \<Rightarrow>
                                  if truthy chunk \<and> starts_with (get_text chunk) ''%PDF''
                                  then (True, ''Valid PDF (signature check)'')
                                  else if truthy chunk
                                  then (False, ''File exists but not a PDF'')
                                  else url_extension_check r2))
                      else url_extension_check r)))"

text \<open>
  A server that answers \<^verbatim>\<open>HEAD\<close> with status 200 and an HTML content type, for a URL
  that carries a query string after \<^verbatim>\<open>.pdf\<close>.
\<close>

definition html_page :: response where
  "html_page =
     \<lparr> status_code = 200,
       content_type = Some ''text/html; charset=utf-8'',
       resp_url = ''https://example.org/guide.pdf?download=1'',
       first_chunk = Inr (Some ''<!DOCTYP'') \<rparr>"

definition html_server :: web where
  "html_server =
     \<lparr> urlparse = (\<lambda>u. Inr (''https'', ''example.org'')),
       head = (\<lambda>u. Inr html_page),
       get_redirects = (\<lambda>u. Inr html_page),
       get_stream = (\<lambda>u. Inr html_page) \<rparr>"

text \<open>A server that answers with a PDF body but a generic content type.\<close>

definition pdf_file :: response where
  "pdf_file =
     \<lparr> status_code = 200,
       content_type = Some ''application/octet-stream'',
       resp_url = ''https://example.org/guide.pdf'',
       first_chunk = Inr (Some ''%PDF-1.7'') \<rparr>"

definition pdf_server :: web where
  "pdf_server =
     \<lparr> urlparse = (\<lambda>u. Inr (''https'', ''example.org'')),
       head = (\<lambda>u. Inr pdf_file),
       get_redirects = (\<lambda>u. Inr pdf_file),
       get_stream = (\<lambda>u. Inr pdf_file) \<rparr>"

section \<open>Persistence (database.py)\<close>

text \<open>
  A table is the list of its rows in insertion order; no statement of the source deletes
  a row. The rows of the states and the tests table carry their id. \<open>states_seq\<close> and
  \<open>tests_seq\<close> are the entries of \<^verbatim>\<open>sqlite_sequence\<close> for the two tables: with
  \<^verbatim>\<open>AUTOINCREMENT\<close> an \<^verbatim>\<open>INSERT\<close> takes the id after the larger of that entry and the
  largest id in the table, and the id is used up also when \<^verbatim>\<open>INSERT OR IGNORE\<close> skips
  the row or \<^verbatim>\<open>ON CONFLICT DO UPDATE\<close> updates an existing one. The objectives and the
  audits table are written by plain inserts only, so there the id of a row is its
  position in the list, counted from 1. The timestamp columns are left out.
  \<open>lastrowid\<close> is the row id of the last successful \<^verbatim>\<open>INSERT\<close> on the connection,
  which \<^verbatim>\<open>cursor.lastrowid\<close> reports.
\<close>

record state_row =
  state_row_id :: nat
  state_name :: string
  state_abbrev :: string

record test_row =
  test_row_id :: nat
  row_state_id :: nat
  row_test_system :: string
  row_test_name :: string
  row_test_code :: "string option"
  row_subject_area :: "string option"
  row_grade_band :: "string option"
  row_official_source_url :: "string option"
  row_provider :: "string option"
  row_source_last_updated :: "string option"

record audit_row =
  audit_state_id :: nat
  audit_status :: string
  audit_tests_found :: nat
  audit_objectives_found :: nat
  audit_objectives_inferred :: nat
  audit_queries_run :: nat
  audit_notes :: "string option"

record database =
  states :: "state_row list"
  tests :: "test_row list"
  objectives :: "(nat \<times> objective) list"
  audits :: "audit_row list"
  states_seq :: nat
  tests_seq :: nat
  lastrowid :: nat

definition empty_database :: database where
  "empty_database =
     \<lparr> states = [], tests = [], objectives = [], audits = [],
       states_seq = 0, tests_seq = 0, lastrowid = 0 \<rparr>"

text \<open>The dictionary \<^verbatim>\<open>counts\<close> of the orchestrator.\<close>

record counts =
  tests_found :: nat
  objectives_found :: nat
  objectives_inferred :: nat
  queries_run :: nat

text \<open>The id that \<^verbatim>\<open>AUTOINCREMENT\<close> gives to the next row of a table.\<close>

definition next_id :: "nat \<Rightarrow> nat list \<Rightarrow> nat" where
  "next_id seq ids = Suc (fold max ids seq)"

text \<open>
  \<^verbatim>\<open>INSERT OR IGNORE\<close> skips the row when the name or the abbreviation is taken (both
  columns are \<^verbatim>\<open>UNIQUE\<close>). \<^verbatim>\<open>SELECT id FROM states WHERE name = ?\<close> with
  \<^verbatim>\<open>fetchone()\<close> gives the row of that name, and \<^verbatim>\<open>fetchone()[0]\<close> raises
  \<^verbatim>\<open>TypeError\<close> when there is none.
\<close>

definition upsert_state :: "string \<Rightarrow> string \<Rightarrow> database \<Rightarrow> (exn + nat) \<times> database" where
  "upsert_state name abbrev db =
     (let new_id = next_id (states_seq db) (map state_row_id (states db));
          db1 =
            (if list_ex (\<lambda>r. state_name r = name \<or> state_abbrev r = abbrev) (states db)
             then db\<lparr>states_seq := new_id\<rparr>
             else db\<lparr>states := states db @
                       [\<lparr>state_row_id = new_id, state_name = name, state_abbrev = abbrev\<rparr>],
                     states_seq := new_id,
                     lastrowid := new_id\<rparr>)
      in case find (\<lambda>r. state_name r = name) (states db1) of
           None \<Rightarrow>
             (Inl (TypeError ([CHR 0x27] @ ''NoneType'' @ [CHR 0x27] @
                              '' object is not subscriptable'')), db1)
         | Some r \<Rightarrow> (Inr (state_row_id r), db1))"

text \<open>A value read with \<^verbatim>\<open>d.get(key)\<close> and bound to a nullable text column.\<close>

definition dict_text :: "pydict \<Rightarrow> string \<Rightarrow> string option" where
  "dict_text d k = (case d k of Some (PStr s) \<Rightarrow> Some s | _ \<Rightarrow> None)"

text \<open>
  \<^verbatim>\<open>upsert_test\<close>. The orchestrator stores \<^verbatim>\<open>state_id\<close> in the dictionary before the
  call; here it is an argument. \<^verbatim>\<open>test_data['test_system']\<close> and
  \<^verbatim>\<open>test_data['test_name']\<close> raise \<^verbatim>\<open>KeyError\<close> on an absent key, and the
  \<^verbatim>\<open>NOT NULL\<close> columns refuse \<^verbatim>\<open>None\<close>. A row with the same state, system, name and
  non-null code is updated (and \<open>lastrowid\<close> keeps its value); otherwise a row is added.
  A failing statement changes nothing.
\<close>

definition upsert_test :: "nat \<Rightarrow> pydict \<Rightarrow> database \<Rightarrow> (exn + nat) \<times> database" where
  "upsert_test state_id test_data db =
     (case test_data ''test_system'' of
        None \<Rightarrow> (Inl (KeyError ''test_system''), db)
      | Some sys_v \<Rightarrow>
     (case test_data ''test_name'' of
        None \<Rightarrow> (Inl (KeyError ''test_name''), db)
      | Some name_v \<Rightarrow>
     (case sys_v of
        PNone \<Rightarrow> (Inl (IntegrityError ''NOT NULL constraint failed: tests.test_system''), db)
      | PStr sys \<Rightarrow>
     (case name_v of
        PNone \<Rightarrow> (Inl (IntegrityError ''NOT NULL constraint failed: tests.test_name''), db)
      | PStr name \<Rightarrow>
          (let new_id = next_id (tests_seq db) (map test_row_id (tests db));
               code = dict_text test_data ''test_code'';
               conflicts = (\<lambda>r. row_state_id r = state_id \<and> row_test_system r = sys \<and>
                                 row_test_name r = name \<and> code \<noteq> None \<and>
                                 row_test_code r = code);
               db1 =
                 (if list_ex conflicts (tests db) then
                    db\<lparr>tests := map (\<lambda>r. if conflicts r then
                            r\<lparr>row_subject_area := dict_text test_data ''subject_area'',
                               row_grade_band := dict_text test_data ''grade_band'',
                               row_official_source_url :=
                                 dict_text test_data ''official_source_url'',
                               row_provider := dict_text test_data ''provider'',
                               row_source_last_updated :=
                                 dict_text test_data ''source_last_updated''\<rparr>
                          else r) (tests db),
                       tests_seq := new_id\<rparr>
                  else
                    db\<lparr>tests := tests db @
                          [\<lparr>test_row_id = new_id,
                            row_state_id = state_id,
                            row_test_system = sys,
                            row_test_name = name,
                            row_test_code = code,
                            row_subject_area = dict_text test_data ''subject_area'',
                            row_grade_band = dict_text test_data ''grade_band'',
                            row_official_source_url =
                              dict_text test_data ''official_source_url'',
                            row_provider = dict_text test_data ''provider'',
                            row_source_last_updated =
                              dict_text test_data ''source_last_updated''\<rparr>],
                        tests_seq := new_id,
                        lastrowid := new_id\<rparr>)
           in (Inr (lastrowid db1), db1))))))"

definition insert_objective :: "nat \<Rightarrow> objective \<Rightarrow> database \<Rightarrow> nat \<times> database" where
  "insert_objective test_id objective_data db =
     (Suc (length (objectives db)),
      db\<lparr>objectives := objectives db @ [(test_id, objective_data)],
         lastrowid := Suc (length (objectives db))\<rparr>)"

definition start_audit :: "nat \<Rightarrow> database \<Rightarrow> nat \<times> database" where
  "start_audit state_id db =
     (Suc (length (audits db)),
      db\<lparr>audits := audits db @
            [\<lparr>audit_state_id = state_id,
              audit_status = ''running'',
              audit_tests_found = 0,
              audit_objectives_found = 0,
              audit_objectives_inferred = 0,
              audit_queries_run = 0,
              audit_notes = None\<rparr>],
         lastrowid := Suc (length (audits db))\<rparr>)"

text \<open>\<^verbatim>\<open>UPDATE audits SET ... WHERE id = ?\<close>: the row at position \<open>audit_id\<close>, if there is one.\<close>

definition complete_audit ::
    "nat \<Rightarrow> string \<Rightarrow> counts \<Rightarrow> string option \<Rightarrow> database \<Rightarrow> database" where
  "complete_audit audit_id status cnts notes db =
     (if 0 < audit_id \<and> audit_id \<le> length (audits db) then
        db\<lparr>audits := (audits db)[audit_id - 1 :=
              (audits db ! (audit_id - 1))
                \<lparr>audit_status := status,
                 audit_tests_found := tests_found cnts,
                 audit_objectives_found := objectives_found cnts,
                 audit_objectives_inferred := objectives_inferred cnts,
                 audit_queries_run := queries_run cnts,
                 audit_notes := notes\<rparr>]\<rparr>
      else db)"

section \<open>Orchestrator (main.py)\<close>

definition generate_sample_tests :: "string \<Rightarrow> string \<Rightarrow> pydict list" where
  "generate_sample_tests name abbrev =
     [[''test_system'' \<mapsto> PStr ''Praxis'',
       ''test_name'' \<mapsto> PStr ''Elementary Education: Multiple Subjects'',
       ''test_code'' \<mapsto> PStr ''5001'',
       ''subject_area'' \<mapsto> PStr ''Elementary Education'',
       ''grade_band'' \<mapsto> PStr ''K-6'',
       ''provider'' \<mapsto> PStr ''ETS'',
       ''official_source_url'' \<mapsto> PStr ''https://www.ets.org/praxis/prepare/materials/5001'',
       ''source_last_updated'' \<mapsto> PStr ''2024''],
      [''test_system'' \<mapsto> PStr ''Praxis'',
       ''test_name'' \<mapsto> PStr ''Mathematics: Content Knowledge'',
       ''test_code'' \<mapsto> PStr ''5161'',
       ''subject_area'' \<mapsto> PStr ''Mathematics'',
       ''grade_band'' \<mapsto> PStr ''7-12'',
       ''provider'' \<mapsto> PStr ''ETS'',
       ''official_source_url'' \<mapsto> PStr ''https://www.ets.org/praxis/prepare/materials/5161'',
       ''source_last_updated'' \<mapsto> PStr ''2024''],
      [''test_system'' \<mapsto> PStr (abbrev @ '' State Exam''),
       ''test_name'' \<mapsto> PStr (name @ '' Teaching Foundations''),
       ''test_code'' \<mapsto> PNone,
       ''subject_area'' \<mapsto> PStr ''General Education'',
       ''grade_band'' \<mapsto> PStr ''All'',
       ''provider'' \<mapsto> PStr ''State DOE'',
       ''official_source_url'' \<mapsto>
          PStr (''https://'' @ py_lower abbrev @ ''.gov/education/teacher-certification''),
       ''source_last_updated'' \<mapsto> PStr ''2024'']]"

text \<open>
  The dictionary \<^verbatim>\<open>test_info\<close> that \<^verbatim>\<open>process_state\<close> builds from a test. The three
  subscripts raise \<^verbatim>\<open>KeyError\<close> on an absent key. When this point is reached
  \<^verbatim>\<open>upsert_test\<close> has returned, so the name and the system are text.
\<close>

definition test_info_of :: "pydict \<Rightarrow> test_info" where
  "test_info_of test_data =
     \<lparr> test_name = dict_text test_data ''test_name'',
       test_system = dict_text test_data ''test_system'',
       subject_area = dict_text test_data ''subject_area'',
       official_source_url = dict_text test_data ''official_source_url'' \<rparr>"

definition make_test_info :: "pydict \<Rightarrow> exn + test_info" where
  "make_test_info test_data =
     (if test_data ''test_name'' = None then Inl (KeyError ''test_name'')
      else if test_data ''test_system'' = None then Inl (KeyError ''test_system'')
      else if test_data ''subject_area'' = None then Inl (KeyError ''subject_area'')
      else Inr (test_info_of test_data))"

text \<open>The inner loop: validate each objective, store and count the accepted ones.\<close>

fun store_objectives ::
    "(rat \<Rightarrow> string) \<Rightarrow> nat \<Rightarrow> objective list \<Rightarrow> counts \<times> database \<Rightarrow> counts \<times> database" where
  "store_objectives sc test_id [] (cnts, db) = (cnts, db)"
| "store_objectives sc test_id (obj # objs) (cnts, db) =
     (if fst (validate_objective sc obj) then
        store_objectives sc test_id objs
          (if is_inferred obj
           then cnts\<lparr>objectives_inferred := objectives_inferred cnts + 1\<rparr>
           else cnts\<lparr>objectives_found := objectives_found cnts + 1\<rparr>,
           snd (insert_objective test_id obj db))
      else store_objectives sc test_id objs (cnts, db))"

text \<open>
  The loop over the tests of a unit, inside the \<^verbatim>\<open>try\<close> block. It stops at the first
  exception and hands it over with the counts and the database as they are then.
\<close>

fun process_tests ::
    "(rat \<Rightarrow> string) \<Rightarrow> nat \<Rightarrow> pydict list \<Rightarrow> counts \<times> database \<Rightarrow>
     exn option \<times> counts \<times> database" where
  "process_tests sc state_id [] (cnts, db) = (None, cnts, db)"
| "process_tests sc state_id (test_data # rest) (cnts, db) =
     (case upsert_test state_id test_data db of
        (Inl e, db1) \<Rightarrow> (Some e, cnts, db1)
      | (Inr test_id, db1) \<Rightarrow>
          (let cnts1 = cnts\<lparr>tests_found := tests_found cnts + 1\<rparr>
           in case make_test_info test_data of
                Inl e \<Rightarrow> (Some e, cnts1, db1)
              | Inr ti \<Rightarrow>
                  process_tests sc state_id rest
                    (store_objectives sc test_id (infer_objectives ti (4 / 10)) (cnts1, db1))))"

definition zero_counts :: counts where
  "zero_counts =
     \<lparr> tests_found = 0, objectives_found = 0, objectives_inferred = 0, queries_run = 0 \<rparr>"

text \<open>
  The body of the \<^verbatim>\<open>try\<close> block of \<^verbatim>\<open>process_state\<close>, up to the point where the
  audit is completed: the exception that left it, if any, with the counts and the
  database as they are then. The step that produces the tests of the unit is the
  parameter \<open>discover\<close>: the source calls \<^verbatim>\<open>_generate_sample_tests\<close> there and names
  the discovery engine as what production would call; \<^const>\<open>Inl\<close> is a step that raises.
\<close>

definition try_block ::
    "(string \<Rightarrow> string \<Rightarrow> exn + pydict list) \<Rightarrow> (rat \<Rightarrow> string) \<Rightarrow> string \<Rightarrow> string \<Rightarrow>
     nat \<Rightarrow> database \<Rightarrow> exn option \<times> counts \<times> database" where
  "try_block discover sc name abbrev state_id db =
     (case discover name abbrev of
        Inl e \<Rightarrow> (Some e, zero_counts, db)
      | Inr sample_tests \<Rightarrow> process_tests sc state_id sample_tests (zero_counts, db))"

text \<open>
  \<^verbatim>\<open>process_state\<close>. The unit record and the audit are created before the \<^verbatim>\<open>try\<close>
  block, so an exception of \<^verbatim>\<open>upsert_state\<close> leaves the function; one raised inside
  the block is caught by \<^verbatim>\<open>except Exception\<close>, the audit is completed with status
  \<^verbatim>\<open>error\<close>, and the counts are returned.
\<close>

definition process_state ::
    "(string \<Rightarrow> string \<Rightarrow> exn + pydict list) \<Rightarrow> (rat \<Rightarrow> string) \<Rightarrow> string \<Rightarrow> string \<Rightarrow>
     database \<Rightarrow> (exn + counts) \<times> database" where
  "process_state discover sc name abbrev db =
     (case upsert_state name abbrev db of
        (Inl e, db1) \<Rightarrow> (Inl e, db1)
      | (Inr state_id, db1) \<Rightarrow>
          (case start_audit state_id db1 of
             (audit_id, db2) \<Rightarrow>
               (case try_block discover sc name abbrev state_id db2 of
                  (Some e, cnts, db3) \<Rightarrow>
                    (Inr cnts,
                     complete_audit audit_id ''error'' cnts (Some (exn_str e)) db3)
                | (None, cnts, db3) \<Rightarrow>
                    (Inr cnts,
                     complete_audit audit_id
                       (if tests_found cnts > 0 then ''complete'' else ''partial'')
                       cnts
                       (Some (''Demo mode: generated '' @ str_nat (tests_found cnts) @
                              '' tests''))
                       db3))))"

text \<open>The totals of \<^verbatim>\<open>run_full_pipeline\<close> and its loop over the units.\<close>

record total_counts =
  states_processed :: nat
  total_tests :: nat
  total_objectives :: nat
  total_verified :: nat
  total_inferred :: nat

definition add_counts :: "total_counts \<Rightarrow> counts \<Rightarrow> total_counts" where
  "add_counts totals cnts =
     \<lparr> states_processed = states_processed totals + 1,
       total_tests = total_tests totals + tests_found cnts,
       total_objectives =
         total_objectives totals + (objectives_found cnts + objectives_inferred cnts),
       total_verified = total_verified totals + objectives_found cnts,
       total_inferred = total_inferred totals + objectives_inferred cnts \<rparr>"

fun run_units ::
    "(string \<Rightarrow> string \<Rightarrow> exn + pydict list) \<Rightarrow> (rat \<Rightarrow> string) \<Rightarrow> (string \<times> string) list \<Rightarrow>
     total_counts \<Rightarrow> database \<Rightarrow> (exn + total_counts) \<times> database" where
  "run_units discover sc [] totals db = (Inr totals, db)"
| "run_units discover sc ((name, abbrev) # rest) totals db =
     (case process_state discover sc name abbrev db of
        (Inl e, db1) \<Rightarrow> (Inl e, db1)
      | (Inr cnts, db1) \<Rightarrow> run_units discover sc rest (add_counts totals cnts) db1)"

text \<open>
  \<^verbatim>\<open>generate_all_reports\<close> writes its files from the database. The model keeps the one
  exception of it that the database decides: \<^verbatim>\<open>generate_coverage_report\<close> divides by
  \<^verbatim>\<open>stats['total_objectives']\<close>, the number of rows of the objectives table.
\<close>

definition generate_all_reports :: "database \<Rightarrow> exn option" where
  "generate_all_reports db =
     (if objectives db = [] then Some (ZeroDivisionError ''division by zero'') else None)"

text \<open>
  \<^verbatim>\<open>run_full_pipeline\<close>: the loop over the units from zero totals, then the reports,
  then the totals are returned.
\<close>

definition run_full_pipeline ::
    "(string \<Rightarrow> string \<Rightarrow> exn + pydict list) \<Rightarrow> (rat \<Rightarrow> string) \<Rightarrow> (string \<times> string) list \<Rightarrow>
     database \<Rightarrow> (exn + total_counts) \<times> database" where
  "run_full_pipeline discover sc states_to_process db =
     (case run_units discover sc states_to_process
             \<lparr> states_processed = 0, total_tests = 0, total_objectives = 0,
               total_verified = 0, total_inferred = 0 \<rparr> db of
        (Inl e, db1) \<Rightarrow> (Inl e, db1)
      | (Inr totals, db1) \<Rightarrow>
          (case generate_all_reports db1 of
             Some e \<Rightarrow> (Inl e, db1)
           | None \<Rightarrow> (Inr totals, db1)))"

text \<open>The demonstration pipeline of the source, and a discovery step that raises.\<close>

definition demo_discover :: "string \<Rightarrow> string \<Rightarrow> exn + pydict list" where
  "demo_discover name abbrev = Inr (generate_sample_tests name abbrev)"

definition failing_discover :: "string \<Rightarrow> string \<Rightarrow> exn + pydict list" where
  "failing_discover name abbrev = Inl (ConnectionError ''Connection failed'')"

text \<open>
  The objectives that pass the validation gate, over all the tests of a unit: for each
  test the candidates inferred at threshold 0.4 that \<^verbatim>\<open>validate_objective\<close> accepts.
\<close>

definition accepted_objectives :: "(rat \<Rightarrow> string) \<Rightarrow> pydict list \<Rightarrow> objective list" where
  "accepted_objectives sc test_list =
     concat (map (\<lambda>test_data.
       filter (\<lambda>obj. fst (validate_objective sc obj))
         (infer_objectives (test_info_of test_data) (4 / 10))) test_list)"

chapter \<open>Verified properties\<close>

section \<open>Inference engine\<close>

lemma subject_templates_nonempty: "subject_templates k = Some objs \<Longrightarrow> objs \<noteq> []"
  by (auto simp: subject_templates_def split: if_splits)

lemma generic_nonempty: "get_generic_test_objectives s n \<noteq> []"
  by (simp add: get_generic_test_objectives_def Let_def)

lemma intasc_nonempty: "intasc_standards \<noteq> []" "take 5 intasc_standards \<noteq> []"
  by (simp_all add: intasc_standards_def)

lemma enumerate_eq_Nil: "List.enumerate n xs = [] \<longleftrightarrow> xs = []"
  by (cases xs) simp_all

lemma candidates_never_empty: "inferred_candidates ti \<noteq> []"
  unfolding inferred_candidates_def Let_def
  by (auto split: option.splits if_splits
      simp: enumerate_eq_Nil generic_nonempty intasc_nonempty
      simp del: take_eq_Nil dest: subject_templates_nonempty)

lemma confidence_inferred_objective [simp]:
  "confidence (inferred_objective u c r p) = c"
  by (cases p) (simp add: inferred_objective_def)

lemma inferred_candidates_confidence:
  "obj \<in> set (inferred_candidates ti) \<Longrightarrow> confidence obj \<in> {3 / 4, 7 / 10, 6 / 10, 4 / 10}"
  unfolding inferred_candidates_def Let_def
  by (auto split: option.splits if_splits)

lemma fallback_candidates:
  assumes "subject_templates (get_text (subject_area ti)) = None"
    and "\<not> py_in ''elementary'' (py_lower (get_text (test_name ti)))"
    and "\<not> py_in ''general'' (py_lower (get_text (test_name ti)))"
    and "get_text (test_system ti) = []"
  shows "inferred_candidates ti =
     map (inferred_objective (Some ''https://ccsso.org/intasc'') (4 / 10)
            ''Minimal inference based on general teaching standards; official objectives not found'')
         (List.enumerate 0 (take 5 intasc_standards))"
  using assms unfolding inferred_candidates_def Let_def by simp


lemma take5_intasc:
  "take 5 intasc_standards =
     [''Learner Development: Understands how learners grow and develop'',
      ''Learning Differences: Uses understanding of individual differences and diverse cultures'',
      ''Learning Environments: Works with others to create environments that support learning'',
      ''Content Knowledge: Understands the central concepts and tools of inquiry'',
      ''Application of Content: Connects concepts using differing perspectives'']"
  by (simp add: intasc_standards_def)

lemma objective_text_inferred_objective [simp]:
  "objective_text (inferred_objective u c r p) = snd p"
  by (cases p) (simp add: inferred_objective_def)

lemma map_snd_enumerate: "map snd (List.enumerate n xs) = xs"
  by (simp add: enumerate_eq_zip)

lemma filter_all: "(\<And>x. x \<in> set xs \<Longrightarrow> P x) \<Longrightarrow> filter P xs = xs"
  by (induction xs) simp_all

text \<open>
  C1. For every \<^verbatim>\<open>test_info\<close>, the candidate list that \<^verbatim>\<open>infer_objectives\<close> builds
  before the threshold filter is non-empty; when no subject template, no
  \<^verbatim>\<open>elementary\<close>/\<^verbatim>\<open>general\<close> name match and no test system applies, the candidates are
  exactly the first five InTASC statements, each with confidence 0.40, and the threshold
  0.4 retains all of them.
\<close>

theorem inferred_candidates_nonempty:
  "inferred_candidates ti \<noteq> [] \<and>
   (subject_templates (get_text (subject_area ti)) = None \<and>
    \<not> py_in ''elementary'' (py_lower (get_text (test_name ti))) \<and>
    \<not> py_in ''general'' (py_lower (get_text (test_name ti))) \<and>
    get_text (test_system ti) = [] \<longrightarrow>
      map objective_text (inferred_candidates ti) =
        [''Learner Development: Understands how learners grow and develop'',
         ''Learning Differences: Uses understanding of individual differences and diverse cultures'',
         ''Learning Environments: Works with others to create environments that support learning'',
         ''Content Knowledge: Understands the central concepts and tools of inquiry'',
         ''Application of Content: Connects concepts using differing perspectives''] \<and>
      map objective_text (inferred_candidates ti) = take 5 intasc_standards \<and>
      map confidence (inferred_candidates ti) = [4 / 10, 4 / 10, 4 / 10, 4 / 10, 4 / 10] \<and>
      infer_objectives ti (4 / 10) = inferred_candidates ti)"
proof (intro conjI impI)
  show "inferred_candidates ti \<noteq> []"
    by (rule candidates_never_empty)
next
  assume "subject_templates (get_text (subject_area ti)) = None \<and>
    \<not> py_in ''elementary'' (py_lower (get_text (test_name ti))) \<and>
    \<not> py_in ''general'' (py_lower (get_text (test_name ti))) \<and>
    get_text (test_system ti) = []"
  then have fb: "inferred_candidates ti =
     map (inferred_objective (Some ''https://ccsso.org/intasc'') (4 / 10)
            ''Minimal inference based on general teaching standards; official objectives not found'')
         (List.enumerate 0 (take 5 intasc_standards))"
    by (simp add: fallback_candidates)
  have texts: "map objective_text (inferred_candidates ti) = take 5 intasc_standards"
    unfolding fb by (simp add: comp_def map_snd_enumerate del: take_eq_Nil)
  show "map objective_text (inferred_candidates ti) = take 5 intasc_standards"
    by (rule texts)
  show "map objective_text (inferred_candidates ti) =
        [''Learner Development: Understands how learners grow and develop'',
         ''Learning Differences: Uses understanding of individual differences and diverse cultures'',
         ''Learning Environments: Works with others to create environments that support learning'',
         ''Content Knowledge: Understands the central concepts and tools of inquiry'',
         ''Application of Content: Connects concepts using differing perspectives'']"
    using texts take5_intasc by simp
  show "map confidence (inferred_candidates ti) = [4 / 10, 4 / 10, 4 / 10, 4 / 10, 4 / 10]"
    unfolding fb by (simp add: comp_def intasc_standards_def)
  show "infer_objectives ti (4 / 10) = inferred_candidates ti"
    unfolding infer_objectives_def
    by (rule filter_all) (simp add: fb, auto)
qed

lemma empty_test_info_fallback:
  "subject_templates (get_text (subject_area empty_test_info)) = None \<and>
    \<not> py_in ''elementary'' (py_lower (get_text (test_name empty_test_info))) \<and>
    \<not> py_in ''general'' (py_lower (get_text (test_name empty_test_info))) \<and>
    get_text (test_system empty_test_info) = []"
  by (simp add: empty_test_info_def subject_templates_def py_lower_def)

theorem inferred_candidates_nonempty_witness:
  "map objective_text (infer_objectives empty_test_info (4 / 10)) =
        [''Learner Development: Understands how learners grow and develop'',
         ''Learning Differences: Uses understanding of individual differences and diverse cultures'',
         ''Learning Environments: Works with others to create environments that support learning'',
         ''Content Knowledge: Understands the central concepts and tools of inquiry'',
         ''Application of Content: Connects concepts using differing perspectives''] \<and>
   map confidence (infer_objectives empty_test_info (4 / 10)) = [4 / 10, 4 / 10, 4 / 10, 4 / 10, 4 / 10]"
  using inferred_candidates_nonempty [of empty_test_info, THEN conjunct2, rule_format,
      OF empty_test_info_fallback]
  by simp

lemma infer_objectives_nonempty_low:
  assumes "thr \<le> 4 / 10"
  shows "infer_objectives ti thr \<noteq> []"
proof -
  have "\<And>obj. obj \<in> set (inferred_candidates ti) \<Longrightarrow> thr \<le> confidence obj"
    using inferred_candidates_confidence [of _ ti] assms by fastforce
  then have "infer_objectives ti thr = inferred_candidates ti"
    unfolding infer_objectives_def by (intro filter_all) simp
  then show ?thesis
    by (simp add: candidates_never_empty)
qed

lemma infer_objectives_fallback_empty:
  assumes "subject_templates (get_text (subject_area ti)) = None"
    and "\<not> py_in ''elementary'' (py_lower (get_text (test_name ti)))"
    and "\<not> py_in ''general'' (py_lower (get_text (test_name ti)))"
    and "get_text (test_system ti) = []"
    and "4 / 10 < thr"
  shows "infer_objectives ti thr = []"
  unfolding infer_objectives_def fallback_candidates [OF assms(1-4)]
  using assms(5) by (simp add: filter_empty_conv not_le)

text \<open>
  C4. With the default threshold 0.5 the public interface returns the empty list on every
  \<^verbatim>\<open>test_info\<close> that has no known subject area, no \<^verbatim>\<open>elementary\<close> or
  \<^verbatim>\<open>general\<close> in its test name and no test system (such an input exists), because the
  fallback candidates carry confidence 0.40; the result is non-empty on every input
  exactly for the thresholds that are at most 0.40.
\<close>

theorem default_threshold_returns_empty:
  "(subject_templates (get_text (subject_area ti)) = None \<and>
    \<not> py_in ''elementary'' (py_lower (get_text (test_name ti))) \<and>
    \<not> py_in ''general'' (py_lower (get_text (test_name ti))) \<and>
    get_text (test_system ti) = [] \<longrightarrow> infer_objectives_default ti = []) \<and>
   (\<exists>ti'. infer_objectives_default ti' = []) \<and>
   ((\<forall>ti'. infer_objectives ti' thr \<noteq> []) \<longleftrightarrow> thr \<le> 4 / 10)"
proof (intro conjI impI)
  assume "subject_templates (get_text (subject_area ti)) = None \<and>
    \<not> py_in ''elementary'' (py_lower (get_text (test_name ti))) \<and>
    \<not> py_in ''general'' (py_lower (get_text (test_name ti))) \<and>
    get_text (test_system ti) = []"
  then show "infer_objectives_default ti = []"
    unfolding infer_objectives_default_def
    by (intro infer_objectives_fallback_empty) simp_all
next
  have "infer_objectives_default empty_test_info = []"
    unfolding infer_objectives_default_def
    using empty_test_info_fallback by (intro infer_objectives_fallback_empty) simp_all
  then show "\<exists>ti'. infer_objectives_default ti' = []" ..
next
  show "(\<forall>ti'. infer_objectives ti' thr \<noteq> []) \<longleftrightarrow> thr \<le> 4 / 10"
  proof
    assume all: "\<forall>ti'. infer_objectives ti' thr \<noteq> []"
    show "thr \<le> 4 / 10"
    proof (rule ccontr)
      assume "\<not> thr \<le> 4 / 10"
      then have "4 / 10 < thr" by simp
      with empty_test_info_fallback have "infer_objectives empty_test_info thr = []"
        by (intro infer_objectives_fallback_empty) simp_all
      with all show False by simp
    qed
  next
    assume "thr \<le> 4 / 10"
    then show "\<forall>ti'. infer_objectives ti' thr \<noteq> []"
      by (simp add: infer_objectives_nonempty_low)
  qed
qed

theorem default_threshold_returns_empty_witness:
  "infer_objectives_default empty_test_info = [] \<and>
   infer_objectives empty_test_info (4 / 10) \<noteq> []"
proof -
  have "infer_objectives_default empty_test_info = []"
    using default_threshold_returns_empty [of empty_test_info 0, THEN conjunct1]
      empty_test_info_fallback by blast
  moreover have "infer_objectives empty_test_info (4 / 10) \<noteq> []"
    using default_threshold_returns_empty [of empty_test_info "4 / 10",
        THEN conjunct2, THEN conjunct2] by simp
  ultimately show ?thesis by simp
qed

lemma mathematics_template:
  "subject_templates ''Mathematics'' =
     Some [''Demonstrate deep understanding of mathematical concepts and procedures'',
           ''Apply mathematical reasoning and problem-solving strategies'',
           ''Connect mathematics to real-world applications and other disciplines'',
           ''Use technology to enhance mathematical learning'',
           ''Assess student understanding of mathematical concepts'',
           ''Differentiate instruction for diverse mathematical learners'',
           ''Teach number sense, operations, and algebraic thinking'',
           ''Develop geometric and spatial reasoning in students'',
           ''Apply statistical and probabilistic reasoning'']"
  by (simp add: subject_templates_def)

lemma mathematics_candidates:
  assumes "subject_area ti = Some ''Mathematics''"
  shows "inferred_candidates ti =
     map (inferred_objective None (3 / 4)
            ''Inferred from standard Mathematics teacher certification competency frameworks'')
         (List.enumerate 0
           [''Demonstrate deep understanding of mathematical concepts and procedures'',
            ''Apply mathematical reasoning and problem-solving strategies'',
            ''Connect mathematics to real-world applications and other disciplines'',
            ''Use technology to enhance mathematical learning'',
            ''Assess student understanding of mathematical concepts'',
            ''Differentiate instruction for diverse mathematical learners'',
            ''Teach number sense, operations, and algebraic thinking'',
            ''Develop geometric and spatial reasoning in students'',
            ''Apply statistical and probabilistic reasoning''])"
  unfolding inferred_candidates_def Let_def
  by (simp add: assms mathematics_template)

text \<open>
  C5. For a \<^verbatim>\<open>test_info\<close> whose subject area is \<^verbatim>\<open>Mathematics\<close> and threshold 0.4,
  \<^verbatim>\<open>infer_objectives\<close> returns the Mathematics template in its order, with the
  indices 0 to 8, each item with confidence 0.75, inferred, of validation status
  \<^verbatim>\<open>inferred\<close>, and with the rationale that cites the Mathematics framework.
\<close>

theorem infer_objectives_mathematics:
  assumes "subject_area ti = Some ''Mathematics''"
  shows "map objective_text (infer_objectives ti (4 / 10)) =
           [''Demonstrate deep understanding of mathematical concepts and procedures'',
            ''Apply mathematical reasoning and problem-solving strategies'',
            ''Connect mathematics to real-world applications and other disciplines'',
            ''Use technology to enhance mathematical learning'',
            ''Assess student understanding of mathematical concepts'',
            ''Differentiate instruction for diverse mathematical learners'',
            ''Teach number sense, operations, and algebraic thinking'',
            ''Develop geometric and spatial reasoning in students'',
            ''Apply statistical and probabilistic reasoning''] \<and>
         Some (map objective_text (infer_objectives ti (4 / 10))) = subject_templates ''Mathematics'' \<and>
         map objective_index (infer_objectives ti (4 / 10)) = [0, 1, 2, 3, 4, 5, 6, 7, 8] \<and>
         list_all (\<lambda>obj. confidence obj = 75 / 100 \<and> is_inferred obj \<and>
                     validation_status obj = ''inferred'' \<and>
                     evidence_url obj = None \<and> evidence_excerpt obj = None \<and>
                     rationale obj = Some
                       ''Inferred from standard Mathematics teacher certification competency frameworks'')
                  (infer_objectives ti (4 / 10))"
  unfolding infer_objectives_def mathematics_candidates [OF assms] mathematics_template
  by (simp add: inferred_objective_def)

theorem infer_objectives_mathematics_witness:
  "map objective_text (infer_objectives mathematics_test_info (4 / 10)) =
           [''Demonstrate deep understanding of mathematical concepts and procedures'',
            ''Apply mathematical reasoning and problem-solving strategies'',
            ''Connect mathematics to real-world applications and other disciplines'',
            ''Use technology to enhance mathematical learning'',
            ''Assess student understanding of mathematical concepts'',
            ''Differentiate instruction for diverse mathematical learners'',
            ''Teach number sense, operations, and algebraic thinking'',
            ''Develop geometric and spatial reasoning in students'',
            ''Apply statistical and probabilistic reasoning''] \<and>
   map objective_index (infer_objectives mathematics_test_info (4 / 10)) =
     [0, 1, 2, 3, 4, 5, 6, 7, 8]"
proof -
  have a: "subject_area mathematics_test_info = Some ''Mathematics''"
    by (simp add: mathematics_test_info_def)
  note w = infer_objectives_mathematics [OF a]
  from w [THEN conjunct1] w [THEN conjunct2, THEN conjunct2, THEN conjunct1]
  show ?thesis by (rule conjI)
qed

lemma enhance_one_empty: "enhance_one [] obj = Inr obj"
  by (simp add: enhance_one_def)

lemma enhance_confidence_empty: "enhance_confidence objs [] = Inr objs"
  by (induction objs) (simp_all add: enhance_one_empty)

lemma enhance_one_boost:
  assumes "ev \<noteq> []" and "is_inferred obj \<longrightarrow> rationale obj \<noteq> None"
  shows "enhance_one ev obj =
     Inr (if is_inferred obj then
        obj\<lparr>confidence := min (py_float_add (confidence obj)
                             (min (py_float_mul (of_nat (length ev)) (1 / 10))
                                  (round_double (3 / 10)))) 1,
            rationale := map_option (\<lambda>r. r @ '' | Supported by '' @ str_nat (length ev) @
                                          '' additional source(s)'') (rationale obj)\<rparr>
      else obj)"
  using assms unfolding enhance_one_def Let_def
  by (auto split: option.splits simp del: str_nat.simps)

text \<open>
  C6, as amended. For every objectives list whose inferred objectives carry a rationale,
  and every non-empty list of supporting URLs, \<^verbatim>\<open>enhance_confidence\<close> sets each
  inferred objective's confidence to \<^verbatim>\<open>min(old + min(count * 0.1, 0.3), 1.0)\<close> as Python
  computes it, in double-precision floating point, appends the note on the number of
  sources to its rationale and leaves the other objectives untouched, so no inferred
  objective of the result has a confidence above 1; with an empty list of supporting
  URLs it returns the objectives unchanged.
\<close>

theorem enhance_confidence_boost:
  assumes "ev \<noteq> []"
    and "\<forall>obj \<in> set objs. is_inferred obj \<longrightarrow> rationale obj \<noteq> None"
  shows "enhance_confidence objs ev = Inr (map (\<lambda>obj.
      if is_inferred obj then
        obj\<lparr>confidence := min (py_float_add (confidence obj)
                             (min (py_float_mul (of_nat (length ev)) (1 / 10))
                                  (round_double (3 / 10)))) 1,
            rationale := map_option (\<lambda>r. r @ '' | Supported by '' @ str_nat (length ev) @
                                          '' additional source(s)'') (rationale obj)\<rparr>
      else obj) objs) \<and>
    (\<forall>res. enhance_confidence objs ev = Inr res \<longrightarrow>
       (\<forall>obj \<in> set res. is_inferred obj \<longrightarrow> confidence obj \<le> 1)) \<and>
    enhance_confidence objs [] = Inr objs"
proof (intro conjI)
  show eq: "enhance_confidence objs ev = Inr (map (\<lambda>obj.
      if is_inferred obj then
        obj\<lparr>confidence := min (py_float_add (confidence obj)
                             (min (py_float_mul (of_nat (length ev)) (1 / 10))
                                  (round_double (3 / 10)))) 1,
            rationale := map_option (\<lambda>r. r @ '' | Supported by '' @ str_nat (length ev) @
                                          '' additional source(s)'') (rationale obj)\<rparr>
      else obj) objs)"
    using assms(2)
  proof (induction objs)
    case Nil
    then show ?case by simp
  next
    case (Cons obj objs)
    then show ?case
      by (simp add: enhance_one_boost [OF assms(1)] del: str_nat.simps)
  qed
  show "\<forall>res. enhance_confidence objs ev = Inr res \<longrightarrow>
       (\<forall>obj \<in> set res. is_inferred obj \<longrightarrow> confidence obj \<le> 1)"
    unfolding eq by (auto simp del: str_nat.simps)
  show "enhance_confidence objs [] = Inr objs"
    by (rule enhance_confidence_empty)
qed

text \<open>
  With no supporting URL the guard of the loop is false: the rationale of an inferred
  objective gets no note.
\<close>

theorem enhance_confidence_empty_evidence_counterexample:
  "enhance_confidence [sample_objective] [] = Inr [sample_objective] \<and>
   enhance_confidence [sample_objective] [] \<noteq>
     Inr [sample_objective\<lparr>
       confidence := min (confidence sample_objective + min (of_nat (length ([] :: string list)) * (1 / 10)) (3 / 10)) 1,
       rationale := Some (''r'' @ '' | Supported by '' @ str_nat 0 @ '' additional source(s)'')\<rparr>]"
  by (simp add: enhance_one_empty sample_objective_def)

lemma boost_of_seven_tenths:
  "min (py_float_add (7 / 10) (min (py_float_mul 1 (1 / 10)) (round_double (3 / 10)))) 1 =
     7205759403792793 / 9007199254740992"
  by code_simp

lemma boost_of_four_tenths:
  "min (py_float_add (4 / 10) (min (py_float_mul 2 (1 / 10)) (round_double (3 / 10)))) 1 =
     1351079888211149 / 2251799813685248"
  by code_simp

text \<open>
  The confidence 0.7 with one source becomes the double \<^verbatim>\<open>0.7999999999999999\<close>, and
  0.4 with two sources the double \<^verbatim>\<open>0.6000000000000001\<close>.
\<close>

theorem enhance_confidence_boost_witness:
  "enhance_confidence [sample_objective\<lparr>confidence := 7 / 10\<rparr>] [''https://ccsso.org/intasc''] =
     Inr [sample_objective\<lparr>confidence := 7205759403792793 / 9007199254740992,
            rationale := Some ''r | Supported by 1 additional source(s)''\<rparr>] \<and>
   enhance_confidence [sample_objective\<lparr>confidence := 4 / 10\<rparr>]
       [''https://ccsso.org/intasc'', ''https://www.ets.org/praxis''] =
     Inr [sample_objective\<lparr>confidence := 1351079888211149 / 2251799813685248,
            rationale := Some ''r | Supported by 2 additional source(s)''\<rparr>]"
proof -
  have a1: "[''https://ccsso.org/intasc''] \<noteq> []"
    and a2: "[''https://ccsso.org/intasc'', ''https://www.ets.org/praxis''] \<noteq> []"
    by simp_all
  have b1: "\<forall>obj \<in> set [sample_objective\<lparr>confidence := 7 / 10\<rparr>].
      is_inferred obj \<longrightarrow> rationale obj \<noteq> None"
    and b2: "\<forall>obj \<in> set [sample_objective\<lparr>confidence := 4 / 10\<rparr>].
      is_inferred obj \<longrightarrow> rationale obj \<noteq> None"
    by (simp_all add: sample_objective_def)
  have l1: "of_nat (length [''https://ccsso.org/intasc'']) = (1 :: rat)"
    and l2: "of_nat (length [''https://ccsso.org/intasc'', ''https://www.ets.org/praxis'']) = (2 :: rat)"
    by simp_all
  have c1: "confidence (sample_objective\<lparr>confidence := 7 / 10\<rparr>) = 7 / 10"
    and c2: "confidence (sample_objective\<lparr>confidence := 4 / 10\<rparr>) = 4 / 10"
    by simp_all
  from enhance_confidence_boost [OF a1 b1, THEN conjunct1]
  have w1: "enhance_confidence [sample_objective\<lparr>confidence := 7 / 10\<rparr>]
      [''https://ccsso.org/intasc''] =
     Inr [sample_objective\<lparr>confidence := 7205759403792793 / 9007199254740992,
            rationale := Some ''r | Supported by 1 additional source(s)''\<rparr>]"
    unfolding list.map l1 c1 boost_of_seven_tenths
    by (simp add: sample_objective_def)
  from enhance_confidence_boost [OF a2 b2, THEN conjunct1]
  have w2: "enhance_confidence [sample_objective\<lparr>confidence := 4 / 10\<rparr>]
      [''https://ccsso.org/intasc'', ''https://www.ets.org/praxis''] =
     Inr [sample_objective\<lparr>confidence := 1351079888211149 / 2251799813685248,
            rationale := Some ''r | Supported by 2 additional source(s)''\<rparr>]"
    unfolding list.map l2 c2 boost_of_four_tenths
    by (simp add: sample_objective_def)
  from w1 w2 show ?thesis by (rule conjI)
qed

section \<open>Deduplication of discovered tests\<close>

lemma dedup_loop_first_seen: "dedup_loop cands seen unique = unique @ first_seen seen cands"
  by (induction cands arbitrary: seen unique) (simp_all add: Let_def)

lemma deduplicate_tests_first_seen: "deduplicate_tests cands = first_seen {} cands"
  by (simp add: deduplicate_tests_def dedup_loop_first_seen)

lemma first_seen_keys: "set (map test_key (first_seen seen cands)) = set (map test_key cands) - seen"
  by (induction cands arbitrary: seen) auto

lemma first_seen_distinct: "distinct (map test_key (first_seen seen cands))"
  by (induction cands arbitrary: seen) (auto simp: first_seen_keys [simplified])

lemma first_seen_subseq: "subseq (first_seen seen cands) cands"
  by (induction cands arbitrary: seen) auto

lemma first_seen_find:
  "find (\<lambda>t. test_key t = k) (first_seen seen cands) =
     (if k \<in> seen then None else find (\<lambda>t. test_key t = k) cands)"
proof (induction cands arbitrary: seen)
  case Nil
  then show ?case by simp
next
  case (Cons t cands)
  then show ?case by auto
qed

lemma first_seen_fixed:
  "distinct (map test_key cands) \<Longrightarrow> set (map test_key cands) \<inter> seen = {} \<Longrightarrow>
   first_seen seen cands = cands"
  by (induction cands arbitrary: seen) auto

lemma first_seen_idem: "first_seen {} (first_seen {} cands) = first_seen {} cands"
  by (rule first_seen_fixed) (simp_all add: first_seen_distinct)

text \<open>
  C9. For every list of test candidates, \<^verbatim>\<open>_deduplicate_tests\<close> keeps one candidate
  for each key \<open>(test_system, test_name, test_code)\<close> of the list: the keys of the result
  are distinct and are the keys of the input, under each key the result holds the first
  candidate of the input with that key, and the result is a subsequence of the input
  (encounter order is preserved). Applying the function twice gives the result of
  applying it once, and of two candidates with the same key the first is kept.
\<close>

theorem deduplicate_tests_first_wins:
  "distinct (map test_key (deduplicate_tests cands)) \<and>
   set (map test_key (deduplicate_tests cands)) = set (map test_key cands) \<and>
   (\<forall>k. find (\<lambda>t. test_key t = k) (deduplicate_tests cands) =
         find (\<lambda>t. test_key t = k) cands) \<and>
   subseq (deduplicate_tests cands) cands \<and>
   deduplicate_tests (deduplicate_tests cands) = deduplicate_tests cands \<and>
   (test_key t1 = test_key t2 \<longrightarrow> deduplicate_tests [t1, t2] = [t1])"
  unfolding deduplicate_tests_first_seen
  using first_seen_keys [of "{}" cands]
  by (simp add: first_seen_distinct first_seen_find first_seen_subseq first_seen_idem)

lemma praxis_same_key: "test_key praxis_5001_a = test_key praxis_5001_b"
  by (simp add: test_key_def dict_get_def praxis_5001_a_def praxis_5001_b_def)

lemma praxis_differ: "praxis_5001_a \<noteq> praxis_5001_b"
proof
  assume "praxis_5001_a = praxis_5001_b"
  then have "praxis_5001_a ''official_source_url'' = praxis_5001_b ''official_source_url''"
    by simp
  then show False
    by (simp add: praxis_5001_a_def praxis_5001_b_def)
qed

theorem deduplicate_tests_first_wins_witness:
  "deduplicate_tests [praxis_5001_a, praxis_5001_b] = [praxis_5001_a] \<and>
   praxis_5001_a \<noteq> praxis_5001_b"
  using deduplicate_tests_first_wins [of "[]" praxis_5001_a praxis_5001_b]
    praxis_same_key praxis_differ
  by simp

section \<open>PDF validator\<close>

lemma fst_rejection [simp]: "fst (rejection e) = False"
  by (cases e) simp_all

lemma fst_url_extension_check [simp]:
  "fst (url_extension_check r) = py_in ''.pdf'' (py_lower (resp_url r))"
  by (simp add: url_extension_check_def)

text \<open>The verdict once a response with status 200 is at hand.\<close>

lemma is_valid_pdf_reached:
  assumes "urlparse w url = Inr (scheme, netloc)" "scheme \<noteq> []" "netloc \<noteq> []"
    and "head w url = Inr r0"
    and "(if status_code r0 \<noteq> 200 then get_redirects w url else Inr r0) = Inr r"
    and "status_code r = 200"
  shows "fst (is_valid_pdf w url) \<longleftrightarrow>
        (py_in ''application/pdf'' (py_lower (get_text (content_type r))) \<or>
         ((ends_with (py_lower url) ''.pdf'' \<or> ends_with (py_lower (resp_url r)) ''.pdf'') \<and>
          (\<exists>r2 chunk. get_stream w url = Inr r2 \<and> first_chunk r2 = Inr chunk \<and>
             (if truthy chunk then starts_with (get_text chunk) ''%PDF''
              else py_in ''.pdf'' (py_lower (resp_url r2))))) \<or>
         (\<not> ends_with (py_lower url) ''.pdf'' \<and> \<not> ends_with (py_lower (resp_url r)) ''.pdf'' \<and>
          py_in ''.pdf'' (py_lower (resp_url r))))"
proof -
  have eq: "is_valid_pdf w url =
     (if py_in ''application/pdf'' (py_lower (get_text (content_type r)))
      then (True, ''Valid PDF (Content-Type)'')
      else if ends_with (py_lower url) ''.pdf'' \<or> ends_with (py_lower (resp_url r)) ''.pdf''
      then
        (case get_stream w url of
           Inl e \<Rightarrow> rejection e
         | Inr r2 \<Rightarrow>
             (case first_chunk r2 of
                Inl e \<Rightarrow> rejection e
              | Inr chunk \<Rightarrow>
                  if truthy chunk \<and> starts_with (get_text chunk) ''%PDF''
                  then (True, ''Valid PDF (signature check)'')
                  else if truthy chunk
                  then (False, ''File exists but not a PDF'')
                  else url_extension_check r2))
      else url_extension_check r)"
    unfolding is_valid_pdf_def using assms(2,3,6)
    by (simp only: assms(1) assms(4) assms(5) sum.case prod.case if_False simp_thms)
  show ?thesis
    unfolding eq
    by (cases "get_stream w url"; cases "first_chunk (projr (get_stream w url))")
       (auto split: if_splits)
qed

lemma is_valid_pdf_unreached:
  assumes "fst (is_valid_pdf w url)"
  shows "\<exists>scheme netloc r0 r.
        urlparse w url = Inr (scheme, netloc) \<and> scheme \<noteq> [] \<and> netloc \<noteq> [] \<and>
        head w url = Inr r0 \<and>
        (if status_code r0 \<noteq> 200 then get_redirects w url else Inr r0) = Inr r \<and>
        status_code r = 200"
proof (cases "urlparse w url")
  case (Inl e)
  with assms show ?thesis by (simp add: is_valid_pdf_def)
next
  case (Inr p)
  obtain scheme netloc where p: "p = (scheme, netloc)" by (cases p)
  show ?thesis
  proof (cases "head w url")
    case (Inl e)
    with assms Inr p show ?thesis by (simp add: is_valid_pdf_def split: if_splits)
  next
    case r0: (Inr r0)
    show ?thesis
    proof (cases "if status_code r0 \<noteq> 200 then get_redirects w url else Inr r0")
      case (Inl e)
      with assms Inr p r0 show ?thesis
        by (simp add: is_valid_pdf_def split: if_splits)
    next
      case r: (Inr r)
      have "scheme \<noteq> [] \<and> netloc \<noteq> [] \<and> status_code r = 200"
        using assms Inr p r0 r unfolding is_valid_pdf_def
        by (cases "scheme = [] \<or> netloc = []"; cases "status_code r = 200")
           (simp_all del: str_nat.simps)
      with Inr p r0 r show ?thesis by blast
    qed
  qed
qed

text \<open>
  C2, as amended. \<^verbatim>\<open>is_valid_pdf\<close> accepts a URL exactly when \<^verbatim>\<open>urlparse\<close> gives a
  scheme and a netloc, a response with status 200 is obtained (from \<^verbatim>\<open>HEAD\<close>, else
  from the streamed \<^verbatim>\<open>GET\<close>), and one of three holds: its content type contains
  \<^verbatim>\<open>application/pdf\<close>; or the URL or the final URL ends in \<^verbatim>\<open>.pdf\<close>, the second
  \<^verbatim>\<open>GET\<close> answers, and its first chunk begins with the signature \<^verbatim>\<open>%PDF\<close> or is
  empty while the final URL of that answer contains \<^verbatim>\<open>.pdf\<close>; or neither URL ends in
  \<^verbatim>\<open>.pdf\<close> and the final URL contains \<^verbatim>\<open>.pdf\<close>. In every other case it rejects.
\<close>

theorem is_valid_pdf_accepts_iff:
  "fst (is_valid_pdf w url) \<longleftrightarrow>
     (\<exists>scheme netloc r0 r.
        urlparse w url = Inr (scheme, netloc) \<and> scheme \<noteq> [] \<and> netloc \<noteq> [] \<and>
        head w url = Inr r0 \<and>
        (if status_code r0 \<noteq> 200 then get_redirects w url else Inr r0) = Inr r \<and>
        status_code r = 200 \<and>
        (py_in ''application/pdf'' (py_lower (get_text (content_type r))) \<or>
         ((ends_with (py_lower url) ''.pdf'' \<or> ends_with (py_lower (resp_url r)) ''.pdf'') \<and>
          (\<exists>r2 chunk. get_stream w url = Inr r2 \<and> first_chunk r2 = Inr chunk \<and>
             (if truthy chunk then starts_with (get_text chunk) ''%PDF''
              else py_in ''.pdf'' (py_lower (resp_url r2))))) \<or>
         (\<not> ends_with (py_lower url) ''.pdf'' \<and> \<not> ends_with (py_lower (resp_url r)) ''.pdf'' \<and>
          py_in ''.pdf'' (py_lower (resp_url r)))))"
  (is "?lhs \<longleftrightarrow> ?rhs")
proof
  assume l: ?lhs
  from is_valid_pdf_unreached [OF l] obtain scheme netloc r0 r where
    h: "urlparse w url = Inr (scheme, netloc)" "scheme \<noteq> []" "netloc \<noteq> []"
       "head w url = Inr r0"
       "(if status_code r0 \<noteq> 200 then get_redirects w url else Inr r0) = Inr r"
       "status_code r = 200"
    by blast
  from l is_valid_pdf_reached [OF h] h show ?rhs by blast
next
  assume ?rhs
  then obtain scheme netloc r0 r where
    h: "urlparse w url = Inr (scheme, netloc)" "scheme \<noteq> []" "netloc \<noteq> []"
       "head w url = Inr r0"
       "(if status_code r0 \<noteq> 200 then get_redirects w url else Inr r0) = Inr r"
       "status_code r = 200"
    and d: "py_in ''application/pdf'' (py_lower (get_text (content_type r))) \<or>
         ((ends_with (py_lower url) ''.pdf'' \<or> ends_with (py_lower (resp_url r)) ''.pdf'') \<and>
          (\<exists>r2 chunk. get_stream w url = Inr r2 \<and> first_chunk r2 = Inr chunk \<and>
             (if truthy chunk then starts_with (get_text chunk) ''%PDF''
              else py_in ''.pdf'' (py_lower (resp_url r2))))) \<or>
         (\<not> ends_with (py_lower url) ''.pdf'' \<and> \<not> ends_with (py_lower (resp_url r)) ''.pdf'' \<and>
          py_in ''.pdf'' (py_lower (resp_url r)))"
    by blast
  from d is_valid_pdf_reached [OF h] show ?lhs by blast
qed


text \<open>
  A URL with a query string after \<^verbatim>\<open>.pdf\<close>, served as HTML, is accepted by the test on
  the final URL: neither the content type nor the signature was checked.
\<close>

theorem is_valid_pdf_url_extension_counterexample:
  "is_valid_pdf html_server ''https://example.org/guide.pdf?download=1'' =
     (True, ''Valid PDF (URL extension)'') \<and>
   \<not> py_in ''application/pdf'' (py_lower (get_text (content_type html_page))) \<and>
   \<not> ends_with (py_lower ''https://example.org/guide.pdf?download=1'') ''.pdf'' \<and>
   \<not> ends_with (py_lower (resp_url html_page)) ''.pdf''"
  by code_simp

lemma pdf_file_facts:
  "\<not> py_in ''application/pdf'' (py_lower (get_text (content_type pdf_file)))"
  "ends_with (py_lower ''https://example.org/guide.pdf'') ''.pdf''"
  "first_chunk pdf_file = Inr (Some ''%PDF-1.7'')"
  "status_code pdf_file = 200"
  by code_simp+

theorem is_valid_pdf_accepts_iff_witness:
  "fst (is_valid_pdf pdf_server ''https://example.org/guide.pdf'')"
proof -
  have "\<exists>r2 chunk. get_stream pdf_server ''https://example.org/guide.pdf'' = Inr r2 \<and>
          first_chunk r2 = Inr chunk \<and>
          (if truthy chunk then starts_with (get_text chunk) ''%PDF''
           else py_in ''.pdf'' (py_lower (resp_url r2)))"
    by (intro exI [of _ pdf_file] exI [of _ "Some ''%PDF-1.7''"])
       (simp add: pdf_server_def pdf_file_facts)
  then have "\<exists>scheme netloc r0 r.
        urlparse pdf_server ''https://example.org/guide.pdf'' = Inr (scheme, netloc) \<and>
        scheme \<noteq> [] \<and> netloc \<noteq> [] \<and>
        head pdf_server ''https://example.org/guide.pdf'' = Inr r0 \<and>
        (if status_code r0 \<noteq> 200 then get_redirects pdf_server ''https://example.org/guide.pdf''
         else Inr r0) = Inr r \<and>
        status_code r = 200 \<and>
        (py_in ''application/pdf'' (py_lower (get_text (content_type r))) \<or>
         ((ends_with (py_lower ''https://example.org/guide.pdf'') ''.pdf'' \<or>
           ends_with (py_lower (resp_url r)) ''.pdf'') \<and>
          (\<exists>r2 chunk. get_stream pdf_server ''https://example.org/guide.pdf'' = Inr r2 \<and>
             first_chunk r2 = Inr chunk \<and>
             (if truthy chunk then starts_with (get_text chunk) ''%PDF''
              else py_in ''.pdf'' (py_lower (resp_url r2))))) \<or>
         (\<not> ends_with (py_lower ''https://example.org/guide.pdf'') ''.pdf'' \<and>
          \<not> ends_with (py_lower (resp_url r)) ''.pdf'' \<and>
          py_in ''.pdf'' (py_lower (resp_url r))))"
    by (intro exI [of _ "''https''"] exI [of _ "''example.org''"] exI [of _ pdf_file])
       (simp add: pdf_server_def pdf_file_facts)
  then show ?thesis
    by (rule is_valid_pdf_accepts_iff [THEN iffD2])
qed

section \<open>Orchestrator and audit\<close>

lemma store_objectives_effect:
  "store_objectives sc test_id objs (cnts, db) = (cnts', db') \<Longrightarrow>
     states db' = states db \<and> tests db' = tests db \<and> audits db' = audits db \<and>
     objectives db' =
       objectives db @ map (Pair test_id) (filter (\<lambda>obj. fst (validate_objective sc obj)) objs) \<and>
     tests_found cnts' = tests_found cnts \<and>
     queries_run cnts' = queries_run cnts \<and>
     objectives_inferred cnts' = objectives_inferred cnts +
       length (filter (\<lambda>obj. fst (validate_objective sc obj) \<and> is_inferred obj) objs) \<and>
     objectives_found cnts' = objectives_found cnts +
       length (filter (\<lambda>obj. fst (validate_objective sc obj) \<and> \<not> is_inferred obj) objs)"
proof (induction objs arbitrary: cnts db)
  case Nil
  then show ?case by simp
next
  case (Cons obj objs)
  show ?case
  proof (cases "fst (validate_objective sc obj)")
    case False
    with Cons.prems have "store_objectives sc test_id objs (cnts, db) = (cnts', db')"
      by simp
    from Cons.IH [OF this] False show ?thesis by simp
  next
    case True
    let ?c = "if is_inferred obj
           then cnts\<lparr>objectives_inferred := objectives_inferred cnts + 1\<rparr>
           else cnts\<lparr>objectives_found := objectives_found cnts + 1\<rparr>"
    let ?d = "snd (insert_objective test_id obj db)"
    from Cons.prems True have "store_objectives sc test_id objs (?c, ?d) = (cnts', db')"
      by simp
    from Cons.IH [OF this] True show ?thesis
      by (simp add: insert_objective_def)
  qed
qed

lemma upsert_test_effect:
  "upsert_test state_id test_data db = (r, db') \<Longrightarrow>
     states db' = states db \<and> audits db' = audits db \<and> objectives db' = objectives db"
  unfolding upsert_test_def Let_def
  by (auto split: option.splits pyval.splits if_splits)


lemma make_test_info_Inr: "make_test_info test_data = Inr ti \<Longrightarrow> ti = test_info_of test_data"
  by (auto simp: make_test_info_def split: if_splits)

lemma filter_map_Pair:
  "length (filter (\<lambda>p. P (snd p)) (map (Pair t) xs)) = length (filter P xs)"
  by (induction xs) simp_all

lemma process_tests_effect:
  "process_tests sc state_id ts (cnts, db) = (r, cnts', db') \<Longrightarrow>
     states db' = states db \<and> audits db' = audits db \<and>
     (\<exists>added. objectives db' = objectives db @ added \<and>
        list_all (\<lambda>p. fst (validate_objective sc (snd p))) added \<and>
        objectives_inferred cnts' =
          objectives_inferred cnts + length (filter (\<lambda>p. is_inferred (snd p)) added) \<and>
        objectives_found cnts' =
          objectives_found cnts + length (filter (\<lambda>p. \<not> is_inferred (snd p)) added) \<and>
        (r = None \<longrightarrow> map snd added = accepted_objectives sc ts \<and>
           tests_found cnts' = tests_found cnts + length ts))"
proof (induction ts arbitrary: cnts db)
  case Nil
  then show ?case by (simp add: accepted_objectives_def)
next
  case (Cons t ts)
  obtain u db1 where u: "upsert_test state_id t db = (u, db1)"
    by (cases "upsert_test state_id t db")
  note eff1 = upsert_test_effect [OF u]
  show ?case
  proof (cases u)
    case (Inl e)
    with Cons.prems u have "r = Some e" "cnts' = cnts" "db' = db1" by simp_all
    with eff1 show ?thesis by simp
  next
    case (Inr test_id)
    let ?c1 = "cnts\<lparr>tests_found := tests_found cnts + 1\<rparr>"
    show ?thesis
    proof (cases "make_test_info t")
      case (Inl e)
      with Cons.prems u Inr have "r = Some e" "cnts' = ?c1" "db' = db1" by simp_all
      with eff1 show ?thesis by simp
    next
      case ti: (Inr ti)
      have ti_eq: "ti = test_info_of t"
        by (rule make_test_info_Inr [OF ti])
      let ?objs = "infer_objectives ti (4 / 10)"
      obtain c2 db2 where s: "store_objectives sc test_id ?objs (?c1, db1) = (c2, db2)"
        by (cases "store_objectives sc test_id ?objs (?c1, db1)")
      note eff2 = store_objectives_effect [OF s]
      from Cons.prems u Inr ti s
      have rest: "process_tests sc state_id ts (c2, db2) = (r, cnts', db')"
        by simp
      from Cons.IH [OF rest] obtain added where
        a: "states db' = states db2" "audits db' = audits db2"
           "objectives db' = objectives db2 @ added"
           "list_all (\<lambda>p. fst (validate_objective sc (snd p))) added"
           "objectives_inferred cnts' =
              objectives_inferred c2 + length (filter (\<lambda>p. is_inferred (snd p)) added)"
           "objectives_found cnts' =
              objectives_found c2 + length (filter (\<lambda>p. \<not> is_inferred (snd p)) added)"
           "r = None \<longrightarrow> map snd added = accepted_objectives sc ts \<and>
              tests_found cnts' = tests_found c2 + length ts"
        by blast
      let ?acc = "filter (\<lambda>obj. fst (validate_objective sc obj)) ?objs"
      let ?new = "map (Pair test_id) ?acc @ added"
      have inf: "length (filter (\<lambda>obj. fst (validate_objective sc obj) \<and> is_inferred obj) ?objs)
          = length (filter (\<lambda>p. is_inferred (snd p)) (map (Pair test_id) ?acc))"
        by (simp add: filter_map_Pair [where P = is_inferred] conj_commute)
      have fnd: "length (filter (\<lambda>obj. fst (validate_objective sc obj) \<and> \<not> is_inferred obj) ?objs)
          = length (filter (\<lambda>p. \<not> is_inferred (snd p)) (map (Pair test_id) ?acc))"
        by (simp add: filter_map_Pair [where P = "\<lambda>obj. \<not> is_inferred obj"] conj_commute)
      have "objectives db' = objectives db @ ?new"
        using a(3) eff2 eff1 by simp
      moreover have "list_all (\<lambda>p. fst (validate_objective sc (snd p))) ?new"
        using a(4) by (auto simp: list_all_iff)
      moreover have "objectives_inferred cnts' =
          objectives_inferred cnts + length (filter (\<lambda>p. is_inferred (snd p)) ?new)"
        using a(5) eff2 inf by simp
      moreover have "objectives_found cnts' =
          objectives_found cnts + length (filter (\<lambda>p. \<not> is_inferred (snd p)) ?new)"
        using a(6) eff2 fnd by simp
      moreover have "r = None \<longrightarrow> map snd ?new = accepted_objectives sc (t # ts) \<and>
           tests_found cnts' = tests_found cnts + length (t # ts)"
        using a(7) eff2 ti_eq by (simp add: accepted_objectives_def comp_def)
      moreover have "states db' = states db" "audits db' = audits db"
        using a(1,2) eff1 eff2 by simp_all
      ultimately show ?thesis
        by - (intro conjI exI [of _ ?new]; assumption)
    qed
  qed
qed


lemma upsert_state_effect:
  "upsert_state name abbrev db = (r, db1) \<Longrightarrow>
     audits db1 = audits db \<and> objectives db1 = objectives db \<and> tests db1 = tests db"
  unfolding upsert_state_def Let_def
  by (auto split: option.splits if_splits)

lemma complete_audit_last:
  assumes "audits db = old @ [row]"
  shows "audits (complete_audit (Suc (length old)) st cnts notes db) =
           old @ [row\<lparr>audit_status := st,
                      audit_tests_found := tests_found cnts,
                      audit_objectives_found := objectives_found cnts,
                      audit_objectives_inferred := objectives_inferred cnts,
                      audit_queries_run := queries_run cnts,
                      audit_notes := notes\<rparr>]"
    and "states (complete_audit (Suc (length old)) st cnts notes db) = states db"
    and "objectives (complete_audit (Suc (length old)) st cnts notes db) = objectives db"
    and "tests (complete_audit (Suc (length old)) st cnts notes db) = tests db"
  using assms by (simp_all add: complete_audit_def)

lemma try_block_effect:
  assumes "try_block discover sc name abbrev state_id db2 = (r, cnts, db3)"
  shows "states db3 = states db2 \<and> audits db3 = audits db2 \<and>
     (\<exists>added. objectives db3 = objectives db2 @ added \<and>
        list_all (\<lambda>p. fst (validate_objective sc (snd p))) added \<and>
        objectives_inferred cnts = length (filter (\<lambda>p. is_inferred (snd p)) added) \<and>
        objectives_found cnts = length (filter (\<lambda>p. \<not> is_inferred (snd p)) added) \<and>
        (\<forall>ts. r = None \<and> discover name abbrev = Inr ts \<longrightarrow>
           map snd added = accepted_objectives sc ts \<and> tests_found cnts = length ts))"
proof (cases "discover name abbrev")
  case (Inl e)
  with assms have "db3 = db2" "cnts = zero_counts" "r = Some e"
    by (simp_all add: try_block_def)
  then show ?thesis
    by (simp add: zero_counts_def)
next
  case (Inr ts)
  with assms have "process_tests sc state_id ts (zero_counts, db2) = (r, cnts, db3)"
    by (simp add: try_block_def)
  from process_tests_effect [OF this] Inr show ?thesis
    by (simp add: zero_counts_def)
qed

lemma process_state_guarded:
  assumes up: "upsert_state name abbrev db = (Inr state_id, db1)"
    and g: "try_block discover sc name abbrev state_id (snd (start_audit state_id db1)) =
              (r, cnts, db3)"
  shows "process_state discover sc name abbrev db =
     (Inr cnts,
      complete_audit (Suc (length (audits db)))
        (case r of Some e \<Rightarrow> ''error''
         | None \<Rightarrow> if tests_found cnts > 0 then ''complete'' else ''partial'')
        cnts
        (case r of Some e \<Rightarrow> Some (exn_str e)
         | None \<Rightarrow> Some (''Demo mode: generated '' @ str_nat (tests_found cnts) @ '' tests''))
        db3)"
proof -
  have a: "audits db1 = audits db"
    using upsert_state_effect [OF up] by simp
  obtain db2 where sa: "start_audit state_id db1 = (Suc (length (audits db)), db2)"
    by (simp add: start_audit_def a)
  from sa have db2: "snd (start_audit state_id db1) = db2"
    by simp
  from g sa show ?thesis
    unfolding db2
    by (cases r) (simp_all add: process_state_def up del: str_nat.simps)
qed

lemma process_state_outcome:
  assumes up: "upsert_state name abbrev db = (Inr state_id, db1)"
    and g: "try_block discover sc name abbrev state_id (snd (start_audit state_id db1)) =
              (r, cnts, db3)"
  shows "\<exists>db' row.
     process_state discover sc name abbrev db = (Inr cnts, db') \<and>
     states db' = states db1 \<and>
     tests db' = tests db3 \<and>
     objectives db' = objectives db3 \<and>
     audits db' = audits db @ [row] \<and>
     audit_state_id row = state_id \<and>
     audit_status row =
       (case r of Some e \<Rightarrow> ''error''
        | None \<Rightarrow> if tests_found cnts > 0 then ''complete'' else ''partial'') \<and>
     (\<forall>e. r = Some e \<longrightarrow> audit_notes row = Some (exn_str e)) \<and>
     audit_tests_found row = tests_found cnts \<and>
     audit_objectives_found row = objectives_found cnts \<and>
     audit_objectives_inferred row = objectives_inferred cnts"
proof -
  let ?row0 = "\<lparr>audit_state_id = state_id, audit_status = ''running'',
      audit_tests_found = 0, audit_objectives_found = 0, audit_objectives_inferred = 0,
      audit_queries_run = 0, audit_notes = None\<rparr>"
  have a1: "audits db1 = audits db"
    using upsert_state_effect [OF up] by simp
  have a2: "audits (snd (start_audit state_id db1)) = audits db @ [?row0]"
      "states (snd (start_audit state_id db1)) = states db1"
    by (simp_all add: start_audit_def a1)
  note eff = try_block_effect [OF g]
  have a3: "audits db3 = audits db @ [?row0]" "states db3 = states db1"
    using eff a2 by simp_all
  let ?st = "case r of Some e \<Rightarrow> ''error''
        | None \<Rightarrow> if tests_found cnts > 0 then ''complete'' else ''partial''"
  let ?notes = "case r of Some e \<Rightarrow> Some (exn_str e)
         | None \<Rightarrow> Some (''Demo mode: generated '' @ str_nat (tests_found cnts) @ '' tests'')"
  let ?db' = "complete_audit (Suc (length (audits db))) ?st cnts ?notes db3"
  let ?row = "?row0\<lparr>audit_status := ?st,
                      audit_tests_found := tests_found cnts,
                      audit_objectives_found := objectives_found cnts,
                      audit_objectives_inferred := objectives_inferred cnts,
                      audit_queries_run := queries_run cnts,
                      audit_notes := ?notes\<rparr>"
  have ps: "process_state discover sc name abbrev db = (Inr cnts, ?db')"
    by (rule process_state_guarded [OF up g])
  note ca = complete_audit_last [OF a3(1), of ?st cnts ?notes]
  have "states ?db' = states db1" "tests ?db' = tests db3" "objectives ?db' = objectives db3"
      "audits ?db' = audits db @ [?row]"
    using ca a3(2) by simp_all
  moreover have "audit_state_id ?row = state_id" "audit_status ?row = ?st"
      "\<forall>e. r = Some e \<longrightarrow> audit_notes ?row = Some (exn_str e)"
      "audit_tests_found ?row = tests_found cnts"
      "audit_objectives_found ?row = objectives_found cnts"
      "audit_objectives_inferred ?row = objectives_inferred cnts"
    by simp_all
  ultimately show ?thesis
    using ps by - (intro exI [of _ ?db'] exI [of _ ?row] conjI; assumption)
qed


text \<open>
  What the \<^verbatim>\<open>try\<close> block gives once \<^verbatim>\<open>upsert_state\<close> has returned an id:
  \<^verbatim>\<open>process_state\<close> returns the counts, and the audit it has opened is closed with one
  terminal status, \<^verbatim>\<open>error\<close> with the message of the exception as notes when the
  block raised, else \<^verbatim>\<open>complete\<close> or \<^verbatim>\<open>partial\<close> as tests were produced or not; the
  loop over the units goes on with the counts of the unit added.
\<close>

lemma process_state_audit_closed:
  assumes "upsert_state name abbrev db = (Inr state_id, db1)"
  shows "\<exists>cnts db' row.
     process_state discover sc name abbrev db = (Inr cnts, db') \<and>
     audits db' = audits db @ [row] \<and>
     audit_state_id row = state_id \<and>
     audit_status row \<in> {''complete'', ''partial'', ''error''} \<and>
     (case fst (try_block discover sc name abbrev state_id (snd (start_audit state_id db1))) of
        Some e \<Rightarrow> audit_status row = ''error'' \<and> audit_notes row = Some (exn_str e)
      | None \<Rightarrow>
          audit_status row = (if tests_found cnts > 0 then ''complete'' else ''partial'')) \<and>
     (\<forall>e. discover name abbrev = Inl e \<longrightarrow>
        audit_status row = ''error'' \<and> audit_notes row = Some (exn_str e)) \<and>
     (\<forall>ts. discover name abbrev = Inr ts \<and>
        fst (try_block discover sc name abbrev state_id (snd (start_audit state_id db1))) = None
        \<longrightarrow> tests_found cnts = length ts) \<and>
     (\<forall>rest totals.
        run_units discover sc ((name, abbrev) # rest) totals db =
        run_units discover sc rest (add_counts totals cnts) db')"
proof -
  obtain r cnts db3 where
    g: "try_block discover sc name abbrev state_id (snd (start_audit state_id db1)) =
          (r, cnts, db3)"
    by (cases "try_block discover sc name abbrev state_id (snd (start_audit state_id db1))")
  from process_state_outcome [OF assms g] obtain db' row where
    o: "process_state discover sc name abbrev db = (Inr cnts, db')"
       "audits db' = audits db @ [row]"
       "audit_state_id row = state_id"
       "audit_status row =
         (case r of Some e \<Rightarrow> ''error''
          | None \<Rightarrow> if tests_found cnts > 0 then ''complete'' else ''partial'')"
       "\<forall>e. r = Some e \<longrightarrow> audit_notes row = Some (exn_str e)"
    by blast
  have st: "audit_status row \<in> {''complete'', ''partial'', ''error''}"
    using o(4) by (cases r) simp_all
  have cs: "case fst (try_block discover sc name abbrev state_id (snd (start_audit state_id db1))) of
        Some e \<Rightarrow> audit_status row = ''error'' \<and> audit_notes row = Some (exn_str e)
      | None \<Rightarrow>
          audit_status row = (if tests_found cnts > 0 then ''complete'' else ''partial'')"
    using o(4,5) unfolding g by (cases r) simp_all
  have dl: "\<forall>e. discover name abbrev = Inl e \<longrightarrow>
        audit_status row = ''error'' \<and> audit_notes row = Some (exn_str e)"
  proof (intro allI impI)
    fix e assume "discover name abbrev = Inl e"
    with g have "r = Some e" by (simp add: try_block_def)
    with o(4,5) show "audit_status row = ''error'' \<and> audit_notes row = Some (exn_str e)"
      by simp
  qed
  have tf: "\<forall>ts. discover name abbrev = Inr ts \<and>
        fst (try_block discover sc name abbrev state_id (snd (start_audit state_id db1))) = None
        \<longrightarrow> tests_found cnts = length ts"
    using try_block_effect [OF g] unfolding g by auto
  have ru: "\<forall>rest totals.
        run_units discover sc ((name, abbrev) # rest) totals db =
        run_units discover sc rest (add_counts totals cnts) db'"
    by (simp add: o(1))
  from o(1,2,3) st cs dl tf ru show ?thesis
    by - (intro exI [of _ cnts] exI [of _ db'] exI [of _ row] conjI; assumption)
qed

text \<open>
  C10. For every unit run that completes without an exception, the counts written into
  the audit satisfy: \<open>objectives_found + objectives_inferred\<close> is the number of
  objectives that passed the validation gate and were stored, over all the tests of the
  unit. The rows added to the objectives table are exactly the accepted objectives; each
  one counts in \<open>objectives_inferred\<close> if it is inferred and in \<open>objectives_found\<close> if
  not, and a rejected objective counts in neither.
\<close>

theorem audit_counts_match_persisted:
  assumes "upsert_state name abbrev db = (Inr state_id, db1)"
    and "discover name abbrev = Inr ts"
    and "fst (try_block discover sc name abbrev state_id (snd (start_audit state_id db1))) = None"
  shows "\<exists>cnts db' row added.
     process_state discover sc name abbrev db = (Inr cnts, db') \<and>
     audits db' = audits db @ [row] \<and>
     audit_status row \<noteq> ''error'' \<and>
     objectives db' = objectives db @ added \<and>
     map snd added = accepted_objectives sc ts \<and>
     audit_objectives_found row + audit_objectives_inferred row = length added \<and>
     audit_objectives_found row + audit_objectives_inferred row =
       length (accepted_objectives sc ts) \<and>
     audit_objectives_inferred row = length (filter is_inferred (accepted_objectives sc ts)) \<and>
     audit_objectives_found row =
       length (filter (\<lambda>obj. \<not> is_inferred obj) (accepted_objectives sc ts))"
proof -
  obtain r cnts db3 where
    g: "try_block discover sc name abbrev state_id (snd (start_audit state_id db1)) =
          (r, cnts, db3)"
    by (cases "try_block discover sc name abbrev state_id (snd (start_audit state_id db1))")
  with assms(3) have r: "r = None" by simp
  from process_state_outcome [OF assms(1) g] obtain db' row where
    o: "process_state discover sc name abbrev db = (Inr cnts, db')"
       "objectives db' = objectives db3"
       "audits db' = audits db @ [row]"
       "audit_status row =
         (case r of Some e \<Rightarrow> ''error''
          | None \<Rightarrow> if tests_found cnts > 0 then ''complete'' else ''partial'')"
       "audit_objectives_found row = objectives_found cnts"
       "audit_objectives_inferred row = objectives_inferred cnts"
    by blast
  from try_block_effect [OF g] r assms(2) obtain added where
    a: "objectives db3 = objectives (snd (start_audit state_id db1)) @ added"
       "objectives_inferred cnts = length (filter (\<lambda>p. is_inferred (snd p)) added)"
       "objectives_found cnts = length (filter (\<lambda>p. \<not> is_inferred (snd p)) added)"
       "map snd added = accepted_objectives sc ts"
    by blast
  have ob: "objectives (snd (start_audit state_id db1)) = objectives db"
    using upsert_state_effect [OF assms(1)] by (simp add: start_audit_def)
  have f1: "length (filter (\<lambda>p. is_inferred (snd p)) added) =
      length (filter is_inferred (map snd added))"
    by (induction added) simp_all
  have f2: "length (filter (\<lambda>p. \<not> is_inferred (snd p)) added) =
      length (filter (\<lambda>obj. \<not> is_inferred obj) (map snd added))"
    by (induction added) simp_all
  have sum: "length (filter is_inferred (map snd added)) +
      length (filter (\<lambda>obj. \<not> is_inferred obj) (map snd added)) = length added"
    using sum_length_filter_compl [of is_inferred "map snd added"] by simp
  have c1: "audit_status row \<noteq> ''error''"
    using o(4) r by simp
  have c2: "objectives db' = objectives db @ added"
    using o(2) a(1) ob by simp
  have c3: "audit_objectives_inferred row = length (filter is_inferred (accepted_objectives sc ts))"
    using o(6) a(2) f1 a(4) by simp
  have c4: "audit_objectives_found row =
       length (filter (\<lambda>obj. \<not> is_inferred obj) (accepted_objectives sc ts))"
    using o(5) a(3) f2 a(4) by simp
  have c5: "audit_objectives_found row + audit_objectives_inferred row = length added"
    using c3 c4 sum a(4) by simp
  have c6: "audit_objectives_found row + audit_objectives_inferred row =
       length (accepted_objectives sc ts)"
    using c5 arg_cong [OF a(4), of length] by simp
  from o(1,3) c1 c2 a(4) c5 c6 c3 c4 show ?thesis
    by - (intro exI [of _ cnts] exI [of _ db'] exI [of _ row] exI [of _ added] conjI; assumption)
qed


lemma upsert_state_fresh:
  "upsert_state ''Alabama'' ''AL'' empty_database =
     (Inr 1,
      empty_database\<lparr>states :=
          [\<lparr>state_row_id = 1, state_name = ''Alabama'', state_abbrev = ''AL''\<rparr>],
        states_seq := 1, lastrowid := 1\<rparr>)"
  by (simp add: upsert_state_def empty_database_def next_id_def)

lemma upsert_state_taken:
  assumes "states db = [\<lparr>state_row_id = 1, state_name = ''Alabama'', state_abbrev = ''AL''\<rparr>]"
  shows "\<exists>db1. upsert_state ''Alaska'' ''AL'' db =
     (Inl (TypeError ([CHR 0x27] @ ''NoneType'' @ [CHR 0x27] @ '' object is not subscriptable'')),
      db1) \<and> audits db1 = audits db"
  by (simp add: upsert_state_def assms Let_def)

lemma upsert_test_ok:
  assumes "t ''test_system'' = Some (PStr s)" and "t ''test_name'' = Some (PStr n)"
  shows "\<exists>i db1. upsert_test state_id t db = (Inr i, db1)"
  by (simp add: upsert_test_def assms Let_def)

lemma process_tests_no_exception:
  assumes "list_all (\<lambda>t. (\<exists>s. t ''test_system'' = Some (PStr s)) \<and>
                        (\<exists>n. t ''test_name'' = Some (PStr n)) \<and>
                        t ''subject_area'' \<noteq> None) ts"
  shows "fst (process_tests sc state_id ts cd) = None"
  using assms
proof (induction ts arbitrary: cd)
  case Nil
  then show ?case by (cases cd) simp
next
  case (Cons t ts)
  obtain cnts db where cd: "cd = (cnts, db)"
    by (cases cd)
  from Cons.prems obtain s n where
    k: "t ''test_system'' = Some (PStr s)" "t ''test_name'' = Some (PStr n)"
       "t ''subject_area'' \<noteq> None"
    by auto
  from upsert_test_ok [OF k(1,2)] obtain i db1 where u: "upsert_test state_id t db = (Inr i, db1)"
    by blast
  have m: "make_test_info t = Inr (test_info_of t)"
    using k by (simp add: make_test_info_def)
  from Cons.prems have "list_all (\<lambda>t. (\<exists>s. t ''test_system'' = Some (PStr s)) \<and>
                        (\<exists>n. t ''test_name'' = Some (PStr n)) \<and>
                        t ''subject_area'' \<noteq> None) ts"
    by simp
  note ih = Cons.IH [OF this]
  show ?case
    unfolding cd by (simp add: u m ih)
qed

lemma demo_tests_keyed:
  "list_all (\<lambda>t. (\<exists>s. t ''test_system'' = Some (PStr s)) \<and>
                 (\<exists>n. t ''test_name'' = Some (PStr n)) \<and>
                 t ''subject_area'' \<noteq> None) (generate_sample_tests name abbrev)"
  by (simp add: generate_sample_tests_def)

lemma demo_try_block: "fst (try_block demo_discover sc name abbrev state_id db) = None"
  by (simp add: try_block_def demo_discover_def process_tests_no_exception [OF demo_tests_keyed])

theorem audit_counts_match_persisted_witness:
  "\<exists>row.
     audits (snd (process_state demo_discover (\<lambda>c. []) ''Alabama'' ''AL'' empty_database)) = [row] \<and>
     audit_status row \<noteq> ''error'' \<and>
     audit_objectives_found row + audit_objectives_inferred row =
       length (objectives
         (snd (process_state demo_discover (\<lambda>c. []) ''Alabama'' ''AL'' empty_database))) \<and>
     map snd (objectives
         (snd (process_state demo_discover (\<lambda>c. []) ''Alabama'' ''AL'' empty_database))) =
       accepted_objectives (\<lambda>c. []) (generate_sample_tests ''Alabama'' ''AL'')"
proof -
  have d: "demo_discover ''Alabama'' ''AL'' = Inr (generate_sample_tests ''Alabama'' ''AL'')"
    by (simp add: demo_discover_def)
  from audit_counts_match_persisted [OF upsert_state_fresh d demo_try_block, of "\<lambda>c. []"]
  obtain cnts db' row added where
    w: "process_state demo_discover (\<lambda>c. []) ''Alabama'' ''AL'' empty_database = (Inr cnts, db')"
       "audits db' = audits empty_database @ [row]"
       "audit_status row \<noteq> ''error''"
       "objectives db' = objectives empty_database @ added"
       "map snd added = accepted_objectives (\<lambda>c. []) (generate_sample_tests ''Alabama'' ''AL'')"
       "audit_objectives_found row + audit_objectives_inferred row = length added"
    by blast
  have "audits db' = [row]" "objectives db' = added"
    using w(2,4) by (simp_all add: empty_database_def)
  with w(1,3,5,6) show ?thesis
    by simp
qed

text \<open>
  C3. The claim asks that an exception raised while one unit is processed is recorded in
  the audit of the unit as status \<^verbatim>\<open>error\<close> and never leaves the unit, so that the
  batch goes on and reports its counts. The code does not do so for an exception raised
  before its \<^verbatim>\<open>try\<close> block. The batch of two units with the same abbreviation, on an
  empty database, with the sample tests of the source: the first unit is processed and
  its audit closed; for the second \<^verbatim>\<open>INSERT OR IGNORE\<close> inserts no row, the lookup of
  the id finds none and \<^verbatim>\<open>fetchone()[0]\<close> raises \<^verbatim>\<open>TypeError\<close> in
  \<^verbatim>\<open>upsert_state\<close>. No audit is opened for the second unit, the exception leaves
  \<^verbatim>\<open>process_state\<close> and \<^verbatim>\<open>run_full_pipeline\<close>, and no counts are returned.
\<close>

theorem run_full_pipeline_duplicate_abbreviation:
  "fst (run_full_pipeline demo_discover (\<lambda>c. [])
          [(''Alabama'', ''AL''), (''Alaska'', ''AL'')] empty_database) =
     Inl (TypeError ([CHR 0x27] @ ''NoneType'' @ [CHR 0x27] @ '' object is not subscriptable'')) \<and>
   length (audits (snd (run_full_pipeline demo_discover (\<lambda>c. [])
          [(''Alabama'', ''AL''), (''Alaska'', ''AL'')] empty_database))) = 1"
proof -
  let ?db1 = "empty_database\<lparr>states :=
          [\<lparr>state_row_id = 1, state_name = ''Alabama'', state_abbrev = ''AL''\<rparr>],
        states_seq := 1, lastrowid := 1\<rparr>"
  obtain r cnts db3 where
    g: "try_block demo_discover (\<lambda>c. []) ''Alabama'' ''AL'' 1 (snd (start_audit 1 ?db1)) =
          (r, cnts, db3)"
    by (cases "try_block demo_discover (\<lambda>c. []) ''Alabama'' ''AL'' 1 (snd (start_audit 1 ?db1))")
  from process_state_outcome [OF upsert_state_fresh g] obtain db' row where
    o: "process_state demo_discover (\<lambda>c. []) ''Alabama'' ''AL'' empty_database = (Inr cnts, db')"
       "states db' = states ?db1"
       "audits db' = audits empty_database @ [row]"
    by blast
  have s: "states db' = [\<lparr>state_row_id = 1, state_name = ''Alabama'', state_abbrev = ''AL''\<rparr>]"
    using o(2) by simp
  from upsert_state_taken [OF s] obtain db'' where
    u: "upsert_state ''Alaska'' ''AL'' db' =
     (Inl (TypeError ([CHR 0x27] @ ''NoneType'' @ [CHR 0x27] @ '' object is not subscriptable'')),
      db'')"
     and a: "audits db'' = audits db'"
    by blast
  have p2: "process_state demo_discover (\<lambda>c. []) ''Alaska'' ''AL'' db' =
     (Inl (TypeError ([CHR 0x27] @ ''NoneType'' @ [CHR 0x27] @ '' object is not subscriptable'')),
      db'')"
    by (simp add: process_state_def u)
  have "run_full_pipeline demo_discover (\<lambda>c. [])
          [(''Alabama'', ''AL''), (''Alaska'', ''AL'')] empty_database =
     (Inl (TypeError ([CHR 0x27] @ ''NoneType'' @ [CHR 0x27] @ '' object is not subscriptable'')),
      db'')"
    by (simp add: run_full_pipeline_def o(1) p2)
  then show ?thesis
    using o(3) a by (simp add: empty_database_def)
qed

text \<open>
  The reports follow the loop. With no row in the objectives table, as after a batch of
  no unit on an empty database, \<^verbatim>\<open>generate_coverage_report\<close> divides by zero and
  \<^verbatim>\<open>run_full_pipeline\<close> returns no totals.
\<close>

lemma run_full_pipeline_no_objectives:
  "run_full_pipeline discover sc [] empty_database =
     (Inl (ZeroDivisionError ''division by zero''), empty_database)"
  by (simp add: run_full_pipeline_def generate_all_reports_def empty_database_def)

section \<open>Objective validation\<close>

lemma split_apply_knowledge: "py_split ''Apply knowledge'' = [''Apply'', ''knowledge'']"
  by code_simp

lemma validate_objective_fst:
  "fst (validate_objective sc obj) \<longleftrightarrow>
     (6 \<le> length (py_split (objective_text obj)) \<and>
      list_ex (\<lambda>verb. py_in verb (py_lower (objective_text obj))) action_verbs \<and>
      \<not> list_ex (\<lambda>phrase. py_in phrase (py_lower (objective_text obj))) boilerplate_phrases \<and>
      (is_inferred obj \<longrightarrow> 0 \<le> confidence obj \<and> confidence obj \<le> 1 \<and> truthy (rationale obj)))"
  unfolding validate_objective_def Let_def
  by (auto simp: not_less)

lemma validate_objective_snd:
  "fst (validate_objective sc obj) \<longleftrightarrow> snd (validate_objective sc obj) = []"
  unfolding validate_objective_def Let_def by simp

lemma validate_objective_too_short:
  "length (py_split (objective_text obj)) < 6 \<Longrightarrow>
   ''Objective too short ('' @ str_nat (length (py_split (objective_text obj))) @ '' words, minimum 6)''
     \<in> set (snd (validate_objective sc obj))"
  unfolding validate_objective_def Let_def
  by (simp del: str_nat.simps)

lemma str_nat_2: "str_nat 2 = ''2''"
  by simp

text \<open>
  C7. \<^verbatim>\<open>validate_objective\<close> accepts an objective (returns true with an empty issue
  list) if and only if its text has at least 6 words, contains a verb of the action-verb
  vocabulary (in the lower-cased text), contains no boilerplate phrase, and, when the
  objective is inferred, its confidence lies in [0, 1] and its rationale is non-empty. The
  verdict is true exactly when the issue list is empty, and the 2-word text
  \<^verbatim>\<open>Apply knowledge\<close> is rejected with the issue that cites the minimum word count.
\<close>

theorem validate_objective_accepts_iff:
  "(validate_objective sc obj = (True, []) \<longleftrightarrow>
     (6 \<le> length (py_split (objective_text obj)) \<and>
      list_ex (\<lambda>verb. py_in verb (py_lower (objective_text obj))) action_verbs \<and>
      \<not> list_ex (\<lambda>phrase. py_in phrase (py_lower (objective_text obj))) boilerplate_phrases \<and>
      (is_inferred obj \<longrightarrow> 0 \<le> confidence obj \<and> confidence obj \<le> 1 \<and> truthy (rationale obj)))) \<and>
   (fst (validate_objective sc obj) \<longleftrightarrow> snd (validate_objective sc obj) = []) \<and>
   (objective_text obj = ''Apply knowledge'' \<longrightarrow>
      \<not> fst (validate_objective sc obj) \<and>
      ''Objective too short (2 words, minimum 6)'' \<in> set (snd (validate_objective sc obj)))"
proof (intro conjI impI)
  show "validate_objective sc obj = (True, []) \<longleftrightarrow>
     (6 \<le> length (py_split (objective_text obj)) \<and>
      list_ex (\<lambda>verb. py_in verb (py_lower (objective_text obj))) action_verbs \<and>
      \<not> list_ex (\<lambda>phrase. py_in phrase (py_lower (objective_text obj))) boilerplate_phrases \<and>
      (is_inferred obj \<longrightarrow> 0 \<le> confidence obj \<and> confidence obj \<le> 1 \<and> truthy (rationale obj)))"
    using validate_objective_fst [of sc obj] validate_objective_snd [of sc obj]
    by (cases "validate_objective sc obj") auto
  show "fst (validate_objective sc obj) \<longleftrightarrow> snd (validate_objective sc obj) = []"
    by (rule validate_objective_snd)
next
  assume t: "objective_text obj = ''Apply knowledge''"
  show "\<not> fst (validate_objective sc obj)"
    by (simp add: validate_objective_fst t split_apply_knowledge)
  show "''Objective too short (2 words, minimum 6)'' \<in> set (snd (validate_objective sc obj))"
  proof -
    have len: "length (py_split (objective_text obj)) = 2"
      by (simp add: t split_apply_knowledge)
    then have "length (py_split (objective_text obj)) < 6"
      by simp
    from validate_objective_too_short [OF this, of sc]
    have "''Objective too short ('' @ str_nat 2 @ '' words, minimum 6)''
        \<in> set (snd (validate_objective sc obj))"
      unfolding len .
    moreover have "''Objective too short ('' @ str_nat 2 @ '' words, minimum 6)''
        = ''Objective too short (2 words, minimum 6)''"
      by simp
    ultimately show ?thesis
      by (simp del: str_nat.simps)
  qed
qed

lemma sample_objective_words:
  "6 \<le> length (py_split (objective_text sample_objective)) \<and>
   list_ex (\<lambda>verb. py_in verb (py_lower (objective_text sample_objective))) action_verbs \<and>
   \<not> list_ex (\<lambda>phrase. py_in phrase (py_lower (objective_text sample_objective))) boilerplate_phrases"
  by code_simp

theorem validate_objective_accepts_iff_witness:
  "validate_objective (\<lambda>c. []) sample_objective = (True, []) \<and>
   \<not> fst (validate_objective (\<lambda>c. []) (sample_objective\<lparr>objective_text := ''Apply knowledge''\<rparr>)) \<and>
   ''Objective too short (2 words, minimum 6)''
     \<in> set (snd (validate_objective (\<lambda>c. []) (sample_objective\<lparr>objective_text := ''Apply knowledge''\<rparr>)))"
proof -
  have a: "objective_text (sample_objective\<lparr>objective_text := ''Apply knowledge''\<rparr>) = ''Apply knowledge''"
    by simp
  have b: "is_inferred sample_objective \<longrightarrow> 0 \<le> confidence sample_objective \<and>
      confidence sample_objective \<le> 1 \<and> truthy (rationale sample_objective)"
    by (simp add: sample_objective_def)
  note w1 = validate_objective_accepts_iff [of "\<lambda>c. []" sample_objective, THEN conjunct1]
  note w2 = validate_objective_accepts_iff [of "\<lambda>c. []"
      "sample_objective\<lparr>objective_text := ''Apply knowledge''\<rparr>",
      THEN conjunct2, THEN conjunct2, rule_format, OF a]
  show ?thesis using w1 w2 sample_objective_words b by blast
qed

section \<open>Status assignment\<close>


end
